theory Spec2Isabelle
  imports Main "HOL-Library.Log_Nat"
begin

section \<open>Data model (schemas/message-status.schema)\<close>

text \<open>
  The enum \<open>DeliveryStatus\<close> with its five members, in declaration order, and the
  string each member stands for.
\<close>

datatype DeliveryStatus = PENDING | SENT | DELIVERED | READ | FAILED

fun statusValue :: "DeliveryStatus \<Rightarrow> string" where
  "statusValue PENDING = ''pending''"
| "statusValue SENT = ''sent''"
| "statusValue DELIVERED = ''delivered''"
| "statusValue READ = ''read''"
| "statusValue FAILED = ''failed''"

text \<open>
  A \<open>Date\<close> is its time value, the number of milliseconds since the epoch. Time
  values lie within 8640000000000000 of zero; an integer outside that range stands for
  the Invalid Date, which is what \<open>new Date(n)\<close> is for such a number \<open>n\<close> and for
  \<open>NaN\<close>. Optional fields (\<open>field?: T\<close>) are \<open>option\<close> values, \<open>None\<close> being
  \<open>undefined\<close>.
\<close>

type_synonym date = int

definition validTime :: "date \<Rightarrow> bool" where
  "validTime t = (\<bar>t\<bar> \<le> 8640000000000000)"

definition invalidDate :: date where
  "invalidDate = 8640000000000001"

record StatusUpdate =
  status :: DeliveryStatus
  timestamp :: date
  updErrorCode :: "string option"
  updErrorMessage :: "string option"

record MessageStatus =
  messageId :: string
  recipientPhone :: string
  conversationId :: "string option"
  currentStatus :: DeliveryStatus
  statusHistory :: "StatusUpdate list"
  sentAt :: "date option"
  deliveredAt :: "date option"
  readAt :: "date option"
  failedAt :: "date option"
  errorCode :: "string option"
  errorMessage :: "string option"
  metadata :: "(string \<times> string) list option"
  createdAt :: "date option"
  updatedAt :: "date option"

section \<open>Effects: log lines, socket emissions, the document collection\<close>

datatype log_level = LOG | ERROR | WARN | DEBUG

type_synonym log_entry = "log_level \<times> string"

text \<open>The payload handed to \<open>emitMessageStatusUpdate\<close>.\<close>

record status_event =
  evMessageId :: string
  evRecipientPhone :: string
  evConversationId :: "string option"
  evStatus :: DeliveryStatus
  evTimestamp :: date
  evErrorCode :: "string option"
  evErrorMessage :: "string option"

text \<open>
  \<open>server.to(room).emit(name, data)\<close> is \<open>ToRoom room name data\<close>;
  \<open>server.emit(name, data)\<close>, which reaches every connected client, is
  \<open>Broadcast name data\<close>.
\<close>

datatype emission =
    ToRoom string string status_event
  | Broadcast string status_event

text \<open>
  The state the status service works on: the collection behind \<open>messageStatusModel\<close>
  (documents in insertion order), what the gateway has emitted and what has been logged,
  both oldest first.
\<close>

record world =
  messageStatusModel :: "MessageStatus list"
  emitted :: "emission list"
  logged :: "log_entry list"

text \<open>JavaScript truthiness of an optional string: defined and not empty.\<close>

fun truthy :: "string option \<Rightarrow> bool" where
  "truthy None = False"
| "truthy (Some s) = (s \<noteq> [])"

text \<open>
  What \<open>save()\<close> validates against the schema before it writes: the paths declared
  \<open>required: true\<close> (\<open>messageId\<close>, \<open>recipientPhone\<close> and \<open>conversationId\<close>, which as
  strings must be defined and not empty; \<open>currentStatus\<close> and the \<open>status\<close> of a
  history entry, which the enum type gives; the \<open>timestamp\<close> of each history entry,
  which must be a valid date). A date field set to an Invalid Date fails with it: the
  only date \<open>updateStatus\<close> sets is the one it also pushes onto the history.
\<close>

definition schemaValid :: "MessageStatus \<Rightarrow> bool" where
  "schemaValid d =
     (messageId d \<noteq> [] \<and> recipientPhone d \<noteq> [] \<and> truthy (conversationId d)
      \<and> (\<forall>e \<in> set (statusHistory d). validTime (timestamp e)))"

datatype mongoose_error = ValidationError | CastError

text \<open>\<open>findOne({ messageId })\<close>: the first document with that id, or \<open>null\<close>.\<close>

definition findOne :: "string \<Rightarrow> MessageStatus list \<Rightarrow> MessageStatus option" where
  "findOne mid docs = find (\<lambda>d. messageId d = mid) docs"

text \<open>
  \<open>doc.save()\<close> of a document obtained from \<open>findOne({ messageId: mid })\<close>: the stored
  document it was read from is replaced. A failure of the database itself (a lost
  connection, a concurrent write to the same document) is not modelled.
\<close>

fun saveExisting :: "string \<Rightarrow> MessageStatus \<Rightarrow> MessageStatus list \<Rightarrow> MessageStatus list" where
  "saveExisting mid d [] = []"
| "saveExisting mid d (x # xs) =
     (if messageId x = mid then d # xs else x # saveExisting mid d xs)"

section \<open>EventsGateway.emitMessageStatusUpdate\<close>

definition emitMessageStatusUpdate :: "status_event \<Rightarrow> emission list" where
  "emitMessageStatusUpdate data =
     [ToRoom (''status-'' @ evRecipientPhone data) ''messageStatusUpdate'' data]
     @ (if truthy (evConversationId data)
        then [ToRoom (''conversation-'' @ the (evConversationId data)) ''messageStatusUpdate'' data]
        else [])
     @ [Broadcast ''messageStatusChanged'' data]"

section \<open>MessageStatusService.updateStatus\<close>

text \<open>The \<open>switch (status)\<close> that sets the per-status timestamp fields.\<close>

fun setTimestampFields ::
  "DeliveryStatus \<Rightarrow> date \<Rightarrow> string option \<Rightarrow> string option \<Rightarrow> MessageStatus \<Rightarrow> MessageStatus" where
  "setTimestampFields SENT ts ec em d = d\<lparr>sentAt := Some ts\<rparr>"
| "setTimestampFields DELIVERED ts ec em d = d\<lparr>deliveredAt := Some ts\<rparr>"
| "setTimestampFields READ ts ec em d = d\<lparr>readAt := Some ts\<rparr>"
| "setTimestampFields FAILED ts ec em d = d\<lparr>failedAt := Some ts, errorCode := ec, errorMessage := em\<rparr>"
| "setTimestampFields PENDING ts ec em d = d"

text \<open>
  The document as \<open>updateStatus\<close> leaves it before \<open>save()\<close>: the history entry is
  pushed, the current status assigned, the timestamp fields set. \<open>save()\<close> then stamps
  \<open>updatedAt\<close> with the clock (\<open>timestamps: true\<close>).
\<close>

definition applyUpdate ::
  "date \<Rightarrow> DeliveryStatus \<Rightarrow> date \<Rightarrow> string option \<Rightarrow> string option \<Rightarrow> MessageStatus \<Rightarrow> MessageStatus" where
  "applyUpdate now st ts ec em d =
     (setTimestampFields st ts ec em
        (d\<lparr>statusHistory := statusHistory d @
               [\<lparr>status = st, timestamp = ts, updErrorCode = ec, updErrorMessage = em\<rparr>],
            currentStatus := st\<rparr>))
     \<lparr>updatedAt := Some now\<rparr>"

text \<open>
  \<open>updateStatus(messageId, status, timestamp, errorCode?, errorMessage?)\<close>, with the
  clock value \<open>now\<close> that \<open>save()\<close> reads. The result is the returned document
  (\<open>None\<close> for \<open>null\<close>) or the error thrown, and the state afterwards. When \<open>save()\<close>
  rejects the document, the error leaves \<open>updateStatus\<close> before anything is written,
  emitted or logged.
\<close>

definition updateStatus ::
  "world \<Rightarrow> date \<Rightarrow> string \<Rightarrow> DeliveryStatus \<Rightarrow> date \<Rightarrow> string option \<Rightarrow> string option
     \<Rightarrow> (mongoose_error + MessageStatus option) \<times> world" where
  "updateStatus w now mid st ts ec em =
     (case findOne mid (messageStatusModel w) of
        None \<Rightarrow>
          (Inr None, w\<lparr>logged := logged w @ [(WARN, ''Message status not found for '' @ mid)]\<rparr>)
      | Some messageStatus \<Rightarrow>
          (let updated = applyUpdate now st ts ec em messageStatus in
           if \<not> schemaValid updated then (Inl ValidationError, w)
           else
           (Inr (Some updated),
            w\<lparr>messageStatusModel := saveExisting mid updated (messageStatusModel w),
              emitted := emitted w @ emitMessageStatusUpdate
                 \<lparr>evMessageId = mid,
                  evRecipientPhone = recipientPhone messageStatus,
                  evConversationId = conversationId messageStatus,
                  evStatus = st, evTimestamp = ts,
                  evErrorCode = ec, evErrorMessage = em\<rparr>,
              logged := logged w @
                 [(DEBUG, ''Updated message '' @ mid @ '' status to '' @ statusValue st)]\<rparr>)))"

section \<open>WebhookController.mapWhatsAppStatus\<close>

definition mapWhatsAppStatus :: "string \<Rightarrow> DeliveryStatus" where
  "mapWhatsAppStatus whatsappStatus =
     (if whatsappStatus = ''sent'' then SENT
      else if whatsappStatus = ''delivered'' then DELIVERED
      else if whatsappStatus = ''read'' then READ
      else if whatsappStatus = ''failed'' then FAILED
      else PENDING)"

section \<open>Sequences of calls on one message id\<close>

text \<open>
  One \<open>updateStatus\<close> call on a given message id: the clock at the call and the
  arguments after the id.
\<close>

record status_call =
  callNow :: date
  callStatus :: DeliveryStatus
  callTimestamp :: date
  callErrorCode :: "string option"
  callErrorMessage :: "string option"

definition historyEntry :: "status_call \<Rightarrow> StatusUpdate" where
  "historyEntry c =
     \<lparr>status = callStatus c, timestamp = callTimestamp c,
      updErrorCode = callErrorCode c, updErrorMessage = callErrorMessage c\<rparr>"

text \<open>The calls of a list made one after the other, each on the state the previous left.\<close>

fun updateStatusSeq :: "world \<Rightarrow> string \<Rightarrow> status_call list \<Rightarrow> world" where
  "updateStatusSeq w mid [] = w"
| "updateStatusSeq w mid (c # cs) =
     updateStatusSeq
       (snd (updateStatus w (callNow c) mid (callStatus c) (callTimestamp c)
               (callErrorCode c) (callErrorMessage c)))
       mid cs"

text \<open>A stored record that has reached \<open>delivered\<close>, and a state holding only it.\<close>

definition deliveredDoc :: MessageStatus where
  "deliveredDoc =
     \<lparr>messageId = ''wamid.1'', recipientPhone = ''221700000000'',
      conversationId = Some ''conv1'', currentStatus = DELIVERED,
      statusHistory =
        [\<lparr>status = PENDING, timestamp = 1000, updErrorCode = None, updErrorMessage = None\<rparr>,
         \<lparr>status = SENT, timestamp = 2000, updErrorCode = None, updErrorMessage = None\<rparr>,
         \<lparr>status = DELIVERED, timestamp = 3000, updErrorCode = None, updErrorMessage = None\<rparr>],
      sentAt = Some 2000, deliveredAt = Some 3000, readAt = None, failedAt = None,
      errorCode = None, errorMessage = None, metadata = None,
      createdAt = Some 1000, updatedAt = Some 3000\<rparr>"

definition deliveredWorld :: world where
  "deliveredWorld = \<lparr>messageStatusModel = [deliveredDoc], emitted = [], logged = []\<rparr>"

text \<open>An event that carries no conversation id.\<close>

definition plainEvent :: status_event where
  "plainEvent =
     \<lparr>evMessageId = ''wamid.3'', evRecipientPhone = ''221700000000'',
      evConversationId = None, evStatus = SENT, evTimestamp = 2500,
      evErrorCode = None, evErrorMessage = None\<rparr>"

text \<open>A second record, for another message, and a state holding both.\<close>

definition sentDoc :: MessageStatus where
  "sentDoc =
     \<lparr>messageId = ''wamid.2'', recipientPhone = ''221700000001'',
      conversationId = Some ''conv2'', currentStatus = SENT,
      statusHistory =
        [\<lparr>status = PENDING, timestamp = 1500, updErrorCode = None, updErrorMessage = None\<rparr>,
         \<lparr>status = SENT, timestamp = 2500, updErrorCode = None, updErrorMessage = None\<rparr>],
      sentAt = Some 2500, deliveredAt = None, readAt = None, failedAt = None,
      errorCode = None, errorMessage = None, metadata = None,
      createdAt = Some 1500, updatedAt = Some 2500\<rparr>"

definition twoRecordWorld :: world where
  "twoRecordWorld = \<lparr>messageStatusModel = [deliveredDoc, sentDoc], emitted = [], logged = []\<rparr>"

section \<open>WebhookController.receiveWebhook\<close>

text \<open>
  The status shape of a callback. \<open>wa_timestamp\<close> is the number that
  \<open>parseInt(status.timestamp)\<close> yields (unix seconds), \<open>None\<close> when it yields
  \<open>NaN\<close>; \<open>errCode\<close> is the string that \<open>code?.toString()\<close> yields.
\<close>

record status_error =
  errCode :: "string option"
  errTitle :: "string option"
  errMessage :: "string option"

record wa_status =
  wa_id :: string
  wa_status :: string
  wa_timestamp :: "int option"
  wa_errors :: "status_error list option"

record 'm webhook_value =
  messages :: "'m option"
  statuses :: "wa_status list option"

record 'm webhook_change =
  "value" :: "'m webhook_value option"

record 'm webhook_entry =
  changes :: "'m webhook_change list option"

record 'm webhook_data =
  entry :: "'m webhook_entry list option"

text \<open>\<open>xs?.[0]\<close>: \<open>undefined\<close> when the array is missing or empty.\<close>

fun firstOf :: "'a list option \<Rightarrow> 'a option" where
  "firstOf None = None"
| "firstOf (Some []) = None"
| "firstOf (Some (x # xs)) = Some x"

definition extractValue :: "'m webhook_data \<Rightarrow> 'm webhook_value option" where
  "extractValue webhookData =
     (case firstOf (entry webhookData) of
        None \<Rightarrow> None
      | Some e \<Rightarrow> (case firstOf (changes e) of None \<Rightarrow> None | Some c \<Rightarrow> value c))"

text \<open>
  What the handler's \<open>catch\<close> receives: an error of a collaborator, with its message,
  or the validation error of the status service.
\<close>

datatype thrown = ThrownError string | ThrownValidationError

text \<open>
  The three bodies the handler returns; \<open>{ status: "error", message: err.message }\<close>
  is carried as the error caught.
\<close>

datatype webhook_response = Ignored string | Ok | Error thrown

text \<open>\<open>new Date(parseInt(status.timestamp) * 1000)\<close>.\<close>

definition statusDate :: "int option \<Rightarrow> date" where
  "statusDate n = (case n of None \<Rightarrow> invalidDate | Some k \<Rightarrow> k * 1000)"

text \<open>
  \<open>errorCode\<close> and \<open>errorMessage\<close> as the loop computes them from \<open>status.errors\<close>.
\<close>

fun errorInfo :: "status_error list option \<Rightarrow> string option \<times> string option" where
  "errorInfo None = (None, None)"
| "errorInfo (Some []) = (None, None)"
| "errorInfo (Some (e # es)) =
     (errCode e, if truthy (errTitle e) then errTitle e else errMessage e)"

text \<open>
  The webhook store, the conversation store and the incoming-message handling are
  collaborators outside this development. They act on a state of an arbitrary type
  \<open>'x\<close>; each returns the state it leaves and, when it throws, the error message:
  \<open>addWebhook type value\<close>, \<open>updateWebhookStatus id status\<close> (the
  \<open>webhooksService.updateStatus\<close> call) and \<open>handleMessages\<close> for the whole
  \<open>if (value.messages)\<close> block. The clock is read as \<open>now\<close> throughout a request.

  The loop over \<open>value.statuses\<close>; a throw ends it with the state reached.
\<close>

fun processStatuses ::
  "(string \<Rightarrow> string \<Rightarrow> 'x \<Rightarrow> string option \<times> 'x) \<Rightarrow> date \<Rightarrow> world \<times> 'x \<Rightarrow> wa_status list
     \<Rightarrow> thrown option \<times> (world \<times> 'x)" where
  "processStatuses updateWebhookStatus now (w, x) [] = (None, (w, x))"
| "processStatuses updateWebhookStatus now (w, x) (s # rest) =
     (let deliveryStatus = mapWhatsAppStatus (wa_status s);
          ts = statusDate (wa_timestamp s);
          err = errorInfo (wa_errors s);
          u = updateStatus w now (wa_id s) deliveryStatus ts (fst err) (snd err)
      in case fst u of
           Inl e \<Rightarrow> (Some ThrownValidationError, (snd u, x))
         | Inr updated \<Rightarrow>
             (let r = updateWebhookStatus (wa_id s) (wa_status s) x
              in case fst r of
                   Some msg \<Rightarrow> (Some (ThrownError msg), (snd u, snd r))
                 | None \<Rightarrow> processStatuses updateWebhookStatus now (snd u, snd r) rest))"

definition receiveWebhook ::
  "(string \<Rightarrow> 'm webhook_value \<Rightarrow> 'x \<Rightarrow> string option \<times> 'x) \<Rightarrow>
   (string \<Rightarrow> string \<Rightarrow> 'x \<Rightarrow> string option \<times> 'x) \<Rightarrow>
   ('m \<Rightarrow> 'x \<Rightarrow> string option \<times> 'x) \<Rightarrow>
   date \<Rightarrow> world \<times> 'x \<Rightarrow> 'm webhook_data \<Rightarrow> webhook_response \<times> (world \<times> 'x)" where
  "receiveWebhook addWebhook updateWebhookStatus handleMessages now wx webhookData =
     (case extractValue webhookData of
        None \<Rightarrow> (Ignored ''No value in webhook data'', wx)
      | Some v \<Rightarrow>
          (let webhookType =
                 (if statuses v \<noteq> None then ''status''
                  else if messages v \<noteq> None then ''message'' else ''unknown'');
               a = addWebhook webhookType v (snd wx)
           in case fst a of
                Some msg \<Rightarrow> (Error (ThrownError msg), (fst wx, snd a))
              | None \<Rightarrow>
                 (let m = (case messages v of
                             None \<Rightarrow> (None, snd a)
                           | Some ms \<Rightarrow> handleMessages ms (snd a))
                  in case fst m of
                       Some msg \<Rightarrow> (Error (ThrownError msg), (fst wx, snd m))
                     | None \<Rightarrow>
                        (case statuses v of
                           None \<Rightarrow> (Ok, (fst wx, snd m))
                         | Some sts \<Rightarrow>
                            (let p = processStatuses updateWebhookStatus now (fst wx, snd m) sts
                             in case fst p of
                                  Some e \<Rightarrow> (Error e, snd p)
                                | None \<Rightarrow> (Ok, snd p))))))"

text \<open>
  A status callback with one entry, for a message id that \<open>deliveredWorld\<close> does not
  hold.
\<close>

definition orphanWebhook :: "unit webhook_data" where
  "orphanWebhook =
     \<lparr>entry = Some [\<lparr>changes = Some [\<lparr>value = Some
        \<lparr>messages = None,
         statuses = Some [\<lparr>wa_id = ''wamid.unknown'', wa_status = ''delivered'',
                           wa_timestamp = Some 1699999999, wa_errors = None\<rparr>]\<rparr>\<rparr>]\<rparr>]\<rparr>"

text \<open>
  A status callback for the record of \<open>deliveredWorld\<close> whose timestamp, in seconds,
  is beyond the range of dates once multiplied by 1000.
\<close>

definition lateDateWebhook :: "unit webhook_data" where
  "lateDateWebhook =
     \<lparr>entry = Some [\<lparr>changes = Some [\<lparr>value = Some
        \<lparr>messages = None,
         statuses = Some [\<lparr>wa_id = ''wamid.1'', wa_status = ''delivered'',
                           wa_timestamp = Some 8640000000001, wa_errors = None\<rparr>]\<rparr>\<rparr>]\<rparr>]\<rparr>"

text \<open>Collaborators that do nothing and do not throw.\<close>

definition quietAdd :: "string \<Rightarrow> unit webhook_value \<Rightarrow> unit \<Rightarrow> string option \<times> unit" where
  "quietAdd t v x = (None, x)"

definition quietUpdate :: "string \<Rightarrow> string \<Rightarrow> unit \<Rightarrow> string option \<times> unit" where
  "quietUpdate i st x = (None, x)"

definition quietMessages :: "unit \<Rightarrow> unit \<Rightarrow> string option \<times> unit" where
  "quietMessages m x = (None, x)"

section \<open>WebhookSignatureGuard\<close>

text \<open>
  Strings and buffers are byte lists (\<open>Buffer.from\<close> of a string is its bytes). The
  request carries the \<open>x-hub-signature-256\<close> header and the raw body, each possibly
  \<open>undefined\<close>; the raw body is a \<open>Buffer\<close> or a string.
\<close>

datatype raw_body = BufferBody string | StringBody string

fun bodyBytes :: "raw_body \<Rightarrow> string" where
  "bodyBytes (BufferBody bs) = bs"
| "bodyBytes (StringBody s) = s"

text \<open>Truthiness of \<open>request.rawBody\<close>: a buffer always, a string when not empty.\<close>

fun bodyTruthy :: "raw_body option \<Rightarrow> bool" where
  "bodyTruthy None = False"
| "bodyTruthy (Some (BufferBody bs)) = True"
| "bodyTruthy (Some (StringBody s)) = (s \<noteq> [])"

record request =
  signatureHeader :: "string option"
  rawBody :: "raw_body option"

datatype http_exception = UnauthorizedException string

datatype node_error = RangeError string

text \<open>\<open>digest('hex')\<close>: two lower-case hexadecimal digits for each byte.\<close>

definition hexDigit :: "nat \<Rightarrow> char" where
  "hexDigit n = ''0123456789abcdef'' ! n"

definition hexByte :: "char \<Rightarrow> string" where
  "hexByte c = [hexDigit ((of_char c :: nat) div 16), hexDigit ((of_char c :: nat) mod 16)]"

definition hexEncode :: "string \<Rightarrow> string" where
  "hexEncode bs = concat (map hexByte bs)"

text \<open>
  HMAC-SHA256 is the platform's (\<open>crypto.createHmac\<close>); it is a parameter
  \<open>hmac key message\<close> giving the digest bytes.
\<close>

definition expectedSignature :: "(string \<Rightarrow> string \<Rightarrow> string) \<Rightarrow> string \<Rightarrow> raw_body \<Rightarrow> string" where
  "expectedSignature hmac appSecret payload =
     ''sha256='' @ hexEncode (hmac appSecret (bodyBytes payload))"

text \<open>\<open>crypto.timingSafeEqual\<close> throws when the two buffers differ in length.\<close>

definition timingSafeEqual :: "string \<Rightarrow> string \<Rightarrow> node_error + bool" where
  "timingSafeEqual a b =
     (if length a \<noteq> length b
      then Inl (RangeError ''Input buffers must have the same byte length'')
      else Inr (a = b))"

text \<open>The body of the \<open>try\<close> block of \<open>verifySignature\<close>, then the whole function.\<close>

definition verifySignatureTry ::
  "(string \<Rightarrow> string \<Rightarrow> string) \<Rightarrow> string \<Rightarrow> raw_body \<Rightarrow> string \<Rightarrow> node_error + bool" where
  "verifySignatureTry hmac appSecret payload signature =
     timingSafeEqual signature (expectedSignature hmac appSecret payload)"

definition verifySignature ::
  "(string \<Rightarrow> string \<Rightarrow> string) \<Rightarrow> string \<Rightarrow> raw_body \<Rightarrow> string \<Rightarrow> bool \<times> log_entry list" where
  "verifySignature hmac appSecret payload signature =
     (case verifySignatureTry hmac appSecret payload signature of
        Inr b \<Rightarrow> (b, [])
      | Inl (RangeError msg) \<Rightarrow> (False, [(ERROR, ''Signature verification error: '' @ msg)]))"

definition canActivate ::
  "(string \<Rightarrow> string \<Rightarrow> string) \<Rightarrow> string \<Rightarrow> request \<Rightarrow> (http_exception + bool) \<times> log_entry list" where
  "canActivate hmac appSecret req =
     (if appSecret = [] then
        (Inr True,
         [(WARN, ''WHATSAPP_APP_SECRET not configured - webhook signature verification skipped'')])
      else if \<not> truthy (signatureHeader req) then
        (Inl (UnauthorizedException ''Missing webhook signature''),
         [(ERROR, ''Missing X-Hub-Signature-256 header'')])
      else if \<not> bodyTruthy (rawBody req) then
        (Inl (UnauthorizedException ''Cannot verify webhook signature''),
         [(ERROR, ''Raw body not available for signature verification'')])
      else
        (let v = verifySignature hmac appSecret (the (rawBody req)) (the (signatureHeader req))
         in if \<not> fst v then
              (Inl (UnauthorizedException ''Invalid webhook signature''),
               snd v @ [(ERROR, ''Invalid webhook signature'')])
            else
              (Inr True, snd v @ [(DEBUG, ''Webhook signature verified successfully'')])))"

text \<open>
  A stand-in for the digest, used only to run the guard on concrete requests: the key
  followed by the message.
\<close>

definition sampleHmac :: "string \<Rightarrow> string \<Rightarrow> string" where
  "sampleHmac k m = k @ m"

section \<open>The send path: WhatsappService.sendMessage and the queue processor\<close>

datatype MessageType = TEXT | TEMPLATE | IMAGE | DOCUMENT | AUDIO | VIDEO

fun messageTypeValue :: "MessageType \<Rightarrow> string" where
  "messageTypeValue TEXT = ''text''"
| "messageTypeValue TEMPLATE = ''template''"
| "messageTypeValue IMAGE = ''image''"
| "messageTypeValue DOCUMENT = ''document''"
| "messageTypeValue AUDIO = ''audio''"
| "messageTypeValue VIDEO = ''video''"

text \<open>
  \<open>SendMessageDto\<close>; a \<open>message\<close> that is an object is carried as its text. The
  payload posted to the provider holds the content under the key named by the type:
  \<open>{ body: message }\<close> for \<open>text\<close>, the message itself otherwise.
\<close>

record SendMessageDto =
  to :: string
  message :: string
  dtoType :: "MessageType option"

datatype payload_content = TextBody string | OtherContent string

record wa_payload =
  pMessagingProduct :: string
  pTo :: string
  pType :: string
  pContent :: payload_content

record wa_contact =
  ctInput :: string
  ctWaId :: string

record wa_message_ref =
  refId :: string
  refMessageStatus :: "string option"

record WhatsappApiResponse =
  respMessagingProduct :: string
  respContacts :: "wa_contact list"
  respMessages :: "wa_message_ref list"

text \<open>
  A failed post: \<open>err.response\<close>, when present, with its status and
  \<open>data.error?.message\<close>.
\<close>

datatype axios_error = AxiosError "(nat \<times> string option) option"

datatype send_exception = HttpException string nat

fun toHttpException :: "axios_error \<Rightarrow> send_exception" where
  "toHttpException (AxiosError (Some (st, msg))) =
     HttpException (''WhatsApp API Error: '' @ (if truthy msg then the msg else ''Unknown error'')) st"
| "toHttpException (AxiosError None) = HttpException ''Failed to send WhatsApp message'' 500"

text \<open>
  \<open>sendMessage\<close>. The provider call is the parameter \<open>post\<close>; \<open>addWebhook\<close> is the
  webhook store's, acting on the collaborators' state \<open>'x\<close> as before. The service
  holds the configuration, the HTTP client, the conversation service and the webhook
  store, and nothing else. Its log lines are not modelled.
\<close>

definition sendMessage ::
  "(wa_payload \<Rightarrow> axios_error + WhatsappApiResponse) \<Rightarrow>
   (string \<Rightarrow> wa_payload \<Rightarrow> 'x \<Rightarrow> string option \<times> 'x) \<Rightarrow>
   'x \<Rightarrow> SendMessageDto \<Rightarrow> (send_exception + WhatsappApiResponse) \<times> 'x" where
  "sendMessage post addWebhook x sendMessageDto =
     (let ty = (case dtoType sendMessageDto of None \<Rightarrow> ''text'' | Some t \<Rightarrow> messageTypeValue t);
          payload = \<lparr>pMessagingProduct = ''whatsapp'', pTo = to sendMessageDto, pType = ty,
                     pContent = (if ty = ''text'' then TextBody (message sendMessageDto)
                                 else OtherContent (message sendMessageDto))\<rparr>
      in case post payload of
           Inl err \<Rightarrow> (Inl (toHttpException err), x)
         | Inr response \<Rightarrow>
             (let a = addWebhook ''message_sent'' payload x
              in case fst a of
                   Some msg \<Rightarrow> (Inl (HttpException ''Failed to send WhatsApp message'' 500), snd a)
                 | None \<Rightarrow> (Inr response, snd a)))"

definition sendTextMessage ::
  "(wa_payload \<Rightarrow> axios_error + WhatsappApiResponse) \<Rightarrow>
   (string \<Rightarrow> wa_payload \<Rightarrow> 'x \<Rightarrow> string option \<times> 'x) \<Rightarrow>
   'x \<Rightarrow> string \<Rightarrow> string \<Rightarrow> (send_exception + WhatsappApiResponse) \<times> 'x" where
  "sendTextMessage post addWebhook x t txt =
     sendMessage post addWebhook x \<lparr>to = t, message = txt, dtoType = Some TEXT\<rparr>"

text \<open>
  The worker's handling of a \<open>send-text\<close> job, on the whole state: the processor
  holds the \<open>WhatsappService\<close> only, so the status collection passes through as it is.
\<close>

record TextMessageJob =
  jobTo :: string
  jobText :: string

definition processTextMessage ::
  "(wa_payload \<Rightarrow> axios_error + WhatsappApiResponse) \<Rightarrow>
   (string \<Rightarrow> wa_payload \<Rightarrow> 'x \<Rightarrow> string option \<times> 'x) \<Rightarrow>
   world \<times> 'x \<Rightarrow> TextMessageJob \<Rightarrow> (send_exception + WhatsappApiResponse) \<times> (world \<times> 'x)" where
  "processTextMessage post addWebhook wx data =
     (let r = sendTextMessage post addWebhook (snd wx) (jobTo data) (jobText data)
      in (fst r, (fst wx, snd r)))"

text \<open>
  A provider that accepts every message and returns the identifier \<open>wamid.1\<close>, a
  webhook store that records nothing and does not throw, and the state with no record.
\<close>

definition acceptingProvider :: "wa_payload \<Rightarrow> axios_error + WhatsappApiResponse" where
  "acceptingProvider p =
     Inr \<lparr>respMessagingProduct = ''whatsapp'',
          respContacts = [\<lparr>ctInput = pTo p, ctWaId = pTo p\<rparr>],
          respMessages = [\<lparr>refId = ''wamid.1'', refMessageStatus = None\<rparr>]\<rparr>"

definition quietAddPayload :: "string \<Rightarrow> wa_payload \<Rightarrow> unit \<Rightarrow> string option \<times> unit" where
  "quietAddPayload t v x = (None, x)"

definition emptyWorld :: world where
  "emptyWorld = \<lparr>messageStatusModel = [], emitted = [], logged = []\<rparr>"

section \<open>MessageStatusService.getStatistics\<close>

text \<open>
  JavaScript numbers are IEEE 754 binary64 values, and each arithmetic operation
  returns the representable number nearest to the exact result, ties going to the even
  significand. A number is modelled by the rational it denotes; \<open>fl\<close> rounds an exact
  result to 53 significant bits. The exponent range is not modelled: the values of
  \<open>getStatistics\<close> are counts of documents and percentages, far inside it. Counts are
  below \<open>2 ^ 53\<close> and enter the arithmetic as they are.
\<close>

text \<open>Round to the nearest integer, ties to even.\<close>

definition rne :: "rat \<Rightarrow> int" where
  "rne z =
     (let f = \<lfloor>z\<rfloor>; d = z - of_int f
      in if d < 1 / 2 then f
         else if 1 / 2 < d then f + 1
         else if even f then f else f + 1)"

text \<open>The binary exponent of a positive rational: \<open>2 powi expo a \<le> a < 2 powi (expo a + 1)\<close>.\<close>

definition expo :: "rat \<Rightarrow> int" where
  "expo a =
     (let c = bitlen (fst (quotient_of a)) - bitlen (snd (quotient_of a))
      in if 2 powi c \<le> a then c else c - 1)"

definition fl :: "rat \<Rightarrow> rat" where
  "fl x =
     (if x = 0 then 0
      else let e = expo \<bar>x\<bar> - 52
           in sgn x * of_int (rne (\<bar>x\<bar> / 2 powi e)) * 2 powi e)"

text \<open>\<open>Math.round\<close>: the nearest integer, ties towards plus infinity.\<close>

definition mathRound :: "rat \<Rightarrow> rat" where
  "mathRound y = of_int \<lfloor>y + 1 / 2\<rfloor>"

record statistics =
  stTotal :: nat
  stPending :: nat
  stSent :: nat
  stDelivered :: nat
  stRead :: nat
  stFailed :: nat
  deliveryRate :: rat
  readRate :: rat

text \<open>The arithmetic of \<open>getStatistics\<close> on the six counts.\<close>

definition rateStatistics :: "nat \<Rightarrow> nat \<Rightarrow> nat \<Rightarrow> nat \<Rightarrow> nat \<Rightarrow> nat \<Rightarrow> statistics" where
  "rateStatistics tot pending sent delivered rd failed =
     (let successfullyDelivered = fl (of_nat delivered + of_nat rd);
          dRate = (if tot > 0 then fl (fl (successfullyDelivered / of_nat tot) * 100) else 0);
          rRate = (if successfullyDelivered > 0
                   then fl (fl (of_nat rd / successfullyDelivered) * 100) else 0)
      in \<lparr>stTotal = tot, stPending = pending, stSent = sent, stDelivered = delivered,
          stRead = rd, stFailed = failed,
          deliveryRate = fl (mathRound (fl (dRate * 100)) / 100),
          readRate = fl (mathRound (fl (rRate * 100)) / 100)\<rparr>)"

text \<open>
  The date filter on \<open>createdAt\<close> (\<open>$gte\<close> the start, \<open>$lte\<close> the end, each when
  given), \<open>countDocuments\<close>, and \<open>getStatistics\<close> on the collection.
\<close>

definition matchesDate :: "date option \<Rightarrow> date option \<Rightarrow> MessageStatus \<Rightarrow> bool" where
  "matchesDate startDate endDate d =
     (if startDate = None \<and> endDate = None then True
      else (case createdAt d of
              None \<Rightarrow> False
            | Some c \<Rightarrow> (case startDate of None \<Rightarrow> True | Some s \<Rightarrow> s \<le> c)
                      \<and> (case endDate of None \<Rightarrow> True | Some e \<Rightarrow> c \<le> e)))"

definition countDocuments ::
  "date option \<Rightarrow> date option \<Rightarrow> DeliveryStatus option \<Rightarrow> MessageStatus list \<Rightarrow> nat" where
  "countDocuments startDate endDate st docs =
     length (filter (\<lambda>d. matchesDate startDate endDate d
                          \<and> (case st of None \<Rightarrow> True | Some s \<Rightarrow> currentStatus d = s)) docs)"

text \<open>
  A window date that is an Invalid Date (the controller builds the dates from query
  strings) makes the query fail when the filter is cast.
\<close>

fun windowDateOk :: "date option \<Rightarrow> bool" where
  "windowDateOk None = True"
| "windowDateOk (Some t) = validTime t"

definition getStatistics ::
  "MessageStatus list \<Rightarrow> date option \<Rightarrow> date option \<Rightarrow> mongoose_error + statistics" where
  "getStatistics docs startDate endDate =
     (if \<not> (windowDateOk startDate \<and> windowDateOk endDate) then Inl CastError
      else Inr (rateStatistics
       (countDocuments startDate endDate None docs)
       (countDocuments startDate endDate (Some PENDING) docs)
       (countDocuments startDate endDate (Some SENT) docs)
       (countDocuments startDate endDate (Some DELIVERED) docs)
       (countDocuments startDate endDate (Some READ) docs)
       (countDocuments startDate endDate (Some FAILED) docs)))"

text \<open>
  A collection of 100 records: 40 delivered, 10 read and 50 sent.
\<close>

definition docWithStatus :: "DeliveryStatus \<Rightarrow> MessageStatus" where
  "docWithStatus st = deliveredDoc\<lparr>currentStatus := st\<rparr>"

definition hundredDocs :: "MessageStatus list" where
  "hundredDocs = replicate 40 (docWithStatus DELIVERED) @ replicate 10 (docWithStatus READ)
                   @ replicate 50 (docWithStatus SENT)"

section \<open>Lemmas on the collection\<close>

lemma findOne_messageId: "findOne mid docs = Some d \<Longrightarrow> messageId d = mid"
  unfolding findOne_def by (induction docs) (auto split: if_splits)

lemma findOne_saveExisting:
  "findOne mid docs = Some d \<Longrightarrow> messageId d' = mid \<Longrightarrow>
   findOne mid (saveExisting mid d' docs) = Some d'"
  unfolding findOne_def by (induction docs) (auto split: if_splits)

lemma findOne_saveExisting_other:
  "mid' \<noteq> mid \<Longrightarrow> messageId d' = mid \<Longrightarrow>
   findOne mid' (saveExisting mid d' docs) = findOne mid' docs"
  unfolding findOne_def by (induction docs) (auto split: if_splits)

lemma length_saveExisting: "length (saveExisting mid d docs) = length docs"
  by (induction docs) auto

lemma setTimestampFields_frame:
  "messageId (setTimestampFields st ts ec em d) = messageId d"
  "recipientPhone (setTimestampFields st ts ec em d) = recipientPhone d"
  "conversationId (setTimestampFields st ts ec em d) = conversationId d"
  "metadata (setTimestampFields st ts ec em d) = metadata d"
  "currentStatus (setTimestampFields st ts ec em d) = currentStatus d"
  "statusHistory (setTimestampFields st ts ec em d) = statusHistory d"
  "createdAt (setTimestampFields st ts ec em d) = createdAt d"
  by (cases st; simp)+

lemma applyUpdate_fields:
  "messageId (applyUpdate now st ts ec em d) = messageId d"
  "recipientPhone (applyUpdate now st ts ec em d) = recipientPhone d"
  "conversationId (applyUpdate now st ts ec em d) = conversationId d"
  "metadata (applyUpdate now st ts ec em d) = metadata d"
  "createdAt (applyUpdate now st ts ec em d) = createdAt d"
  "currentStatus (applyUpdate now st ts ec em d) = st"
  "statusHistory (applyUpdate now st ts ec em d) =
     statusHistory d @ [\<lparr>status = st, timestamp = ts, updErrorCode = ec, updErrorMessage = em\<rparr>]"
  by (simp_all add: applyUpdate_def setTimestampFields_frame)

lemma truthy_iff: "truthy x \<longleftrightarrow> x \<noteq> None \<and> x \<noteq> Some []"
  by (cases x) simp_all

lemma schemaValid_applyUpdate:
  "schemaValid (applyUpdate now st ts ec em d) \<longleftrightarrow> schemaValid d \<and> validTime ts"
  by (auto simp add: schemaValid_def applyUpdate_fields)

lemma updateStatus_found:
  assumes "findOne mid (messageStatusModel w) = Some d"
    and "schemaValid d" and "validTime ts"
  shows "fst (updateStatus w now mid st ts ec em) = Inr (Some (applyUpdate now st ts ec em d))"
    and "findOne mid (messageStatusModel (snd (updateStatus w now mid st ts ec em)))
           = Some (applyUpdate now st ts ec em d)"
  using assms findOne_messageId [OF assms(1)]
  by (simp_all add: updateStatus_def Let_def findOne_saveExisting applyUpdate_fields
      schemaValid_applyUpdate)

lemma updateStatus_rejected:
  assumes "findOne mid (messageStatusModel w) = Some d"
    and "\<not> (schemaValid d \<and> validTime ts)"
  shows "updateStatus w now mid st ts ec em = (Inl ValidationError, w)"
  using assms by (simp add: updateStatus_def Let_def schemaValid_applyUpdate)

lemma updateStatus_missing:
  assumes "findOne mid (messageStatusModel w) = None"
  shows "updateStatus w now mid st ts ec em =
           (Inr None, w\<lparr>logged := logged w @ [(WARN, ''Message status not found for '' @ mid)]\<rparr>)"
  using assms by (simp add: updateStatus_def)

lemma updateStatus_other:
  assumes "mid' \<noteq> mid"
  shows "findOne mid' (messageStatusModel (snd (updateStatus w now mid st ts ec em)))
           = findOne mid' (messageStatusModel w)"
proof (cases "findOne mid (messageStatusModel w)")
  case None
  then show ?thesis by (simp add: updateStatus_missing)
next
  case (Some d)
  from findOne_messageId [OF Some] have "messageId (applyUpdate now st ts ec em d) = mid"
    by (simp add: applyUpdate_fields)
  with assms Some show ?thesis
    by (simp add: updateStatus_def Let_def findOne_saveExisting_other)
qed

lemma updateStatus_length:
  "length (messageStatusModel (snd (updateStatus w now mid st ts ec em)))
     = length (messageStatusModel w)"
  by (cases "findOne mid (messageStatusModel w)")
     (simp_all add: updateStatus_def Let_def length_saveExisting)

lemma updateStatus_emitted:
  assumes "findOne mid (messageStatusModel w) = Some d"
    and "schemaValid d" and "validTime ts"
  shows "emitted (snd (updateStatus w now mid st ts ec em)) =
         emitted w @ emitMessageStatusUpdate
           \<lparr>evMessageId = mid, evRecipientPhone = recipientPhone d,
            evConversationId = conversationId d, evStatus = st, evTimestamp = ts,
            evErrorCode = ec, evErrorMessage = em\<rparr>"
  using assms by (simp add: updateStatus_def Let_def schemaValid_applyUpdate)

lemma updateStatusSeq_found:
  assumes "findOne mid (messageStatusModel w) = Some d"
    and "schemaValid d" and "\<forall>c \<in> set cs. validTime (callTimestamp c)"
  shows "\<exists>d'. findOne mid (messageStatusModel (updateStatusSeq w mid cs)) = Some d'
           \<and> statusHistory d' = statusHistory d @ map historyEntry cs
           \<and> currentStatus d' = (if cs = [] then currentStatus d else callStatus (last cs))"
  using assms
proof (induction cs arbitrary: w d)
  case Nil
  then show ?case by simp
next
  case (Cons c cs)
  let ?d1 = "applyUpdate (callNow c) (callStatus c) (callTimestamp c)
               (callErrorCode c) (callErrorMessage c) d"
  let ?w1 = "snd (updateStatus w (callNow c) mid (callStatus c) (callTimestamp c)
               (callErrorCode c) (callErrorMessage c))"
  from Cons.prems have vc: "validTime (callTimestamp c)"
    and vcs: "\<forall>c \<in> set cs. validTime (callTimestamp c)" by simp_all
  have f1: "findOne mid (messageStatusModel ?w1) = Some ?d1"
    by (rule updateStatus_found(2) [OF Cons.prems(1,2) vc])
  have v1: "schemaValid ?d1"
    using Cons.prems(2) vc by (simp add: schemaValid_applyUpdate)
  from Cons.IH [OF f1 v1 vcs] obtain d' where
    d': "findOne mid (messageStatusModel (updateStatusSeq ?w1 mid cs)) = Some d'"
        "statusHistory d' = statusHistory ?d1 @ map historyEntry cs"
        "currentStatus d' = (if cs = [] then currentStatus ?d1 else callStatus (last cs))"
    by blast
  then show ?case
    by (auto simp add: applyUpdate_fields historyEntry_def)
qed

lemma processStatuses_orphans:
  assumes "\<forall>s \<in> set sts. findOne (wa_id s) (messageStatusModel w) = None"
  shows "messageStatusModel (fst (snd (processStatuses upd now (w, x) sts))) = messageStatusModel w
       \<and> emitted (fst (snd (processStatuses upd now (w, x) sts))) = emitted w"
  using assms
proof (induction sts arbitrary: w x)
  case Nil
  then show ?case by simp
next
  case (Cons s sts)
  let ?w1 = "w\<lparr>logged := logged w @ [(WARN, ''Message status not found for '' @ wa_id s)]\<rparr>"
  from Cons.prems have miss: "findOne (wa_id s) (messageStatusModel w) = None" by simp
  from Cons.prems have rest: "\<forall>t \<in> set sts. findOne (wa_id t) (messageStatusModel ?w1) = None"
    by simp
  from Cons.IH [OF rest] show ?case
    by (simp add: Let_def updateStatus_missing [OF miss] split: option.splits)
qed

lemma processStatuses_orphans_ok:
  assumes "\<forall>s \<in> set sts. findOne (wa_id s) (messageStatusModel w) = None"
    and "\<forall>i st y. fst (upd i st y) = None"
  shows "fst (processStatuses upd now (w, x) sts) = None
       \<and> logged (fst (snd (processStatuses upd now (w, x) sts))) =
           logged w @ map (\<lambda>s. (WARN, ''Message status not found for '' @ wa_id s)) sts"
  using assms(1)
proof (induction sts arbitrary: w x)
  case Nil
  then show ?case by simp
next
  case (Cons s sts)
  let ?w1 = "w\<lparr>logged := logged w @ [(WARN, ''Message status not found for '' @ wa_id s)]\<rparr>"
  from Cons.prems have miss: "findOne (wa_id s) (messageStatusModel w) = None" by simp
  from Cons.prems have rest: "\<forall>t \<in> set sts. findOne (wa_id t) (messageStatusModel ?w1) = None"
    by simp
  from Cons.IH [OF rest] assms(2) show ?case
    by (simp add: Let_def updateStatus_missing [OF miss])
qed

lemma deliveredDoc_found:
  "findOne ''wamid.1'' (messageStatusModel deliveredWorld) = Some deliveredDoc"
  "findOne ''wamid.1'' (messageStatusModel twoRecordWorld) = Some deliveredDoc"
  "findOne ''wamid.2'' (messageStatusModel twoRecordWorld) = Some sentDoc"
  by (simp_all add: findOne_def deliveredWorld_def twoRecordWorld_def deliveredDoc_def sentDoc_def)

lemma deliveredDoc_valid: "schemaValid deliveredDoc"
  by (simp add: schemaValid_def deliveredDoc_def validTime_def)

text \<open>
  Two rejections by \<open>save()\<close>: a stored record without a conversation id, whatever the
  call, and a callback for a stored record whose timestamp is beyond the range of
  dates, which the handler answers with \<open>{ status: "error" }\<close>.
\<close>

lemma updateStatus_without_conversation:
  assumes "findOne mid (messageStatusModel w) = Some d"
    and "conversationId d = None \<or> conversationId d = Some []"
  shows "updateStatus w now mid st ts ec em = (Inl ValidationError, w)"
proof -
  from assms(2) have "\<not> schemaValid d" by (auto simp add: schemaValid_def truthy_iff)
  then show ?thesis using updateStatus_rejected [OF assms(1)] by simp
qed

lemma receiveWebhook_invalid_date:
  "receiveWebhook quietAdd quietUpdate quietMessages 5000 (deliveredWorld, ()) lateDateWebhook =
     (Error ThrownValidationError, (deliveredWorld, ()))"
proof -
  have "\<not> validTime (statusDate (Some 8640000000001))"
    by (simp add: statusDate_def validTime_def)
  then have "updateStatus deliveredWorld 5000 ''wamid.1'' DELIVERED
               (statusDate (Some 8640000000001)) None None = (Inl ValidationError, deliveredWorld)"
    using updateStatus_rejected [OF deliveredDoc_found(1)] by simp
  then show ?thesis
    by (simp add: receiveWebhook_def lateDateWebhook_def extractValue_def quietAdd_def
        Let_def mapWhatsAppStatus_def)
qed

section \<open>Lemmas on the signature guard\<close>

lemma hexDigit_inj: "a < 16 \<Longrightarrow> b < 16 \<Longrightarrow> hexDigit a = hexDigit b \<Longrightarrow> a = b"
  unfolding hexDigit_def
  by (subst (asm) nth_eq_iff_index_eq) simp_all

lemma hexByte_inj: "hexByte c = hexByte d \<Longrightarrow> c = d"
proof -
  assume h: "hexByte c = hexByte d"
  let ?a = "of_char c :: nat" and ?b = "of_char d :: nat"
  have la: "?a < 256" and lb: "?b < 256" by (rule nat_of_char_less_256)+
  from la lb have d: "?a div 16 < 16" "?b div 16 < 16"
    by (simp_all add: less_mult_imp_div_less)
  have m: "?a mod 16 < 16" "?b mod 16 < 16" by simp_all
  from h have "hexDigit (?a div 16) = hexDigit (?b div 16)"
    and "hexDigit (?a mod 16) = hexDigit (?b mod 16)"
    by (simp_all add: hexByte_def)
  then have "?a div 16 = ?b div 16" "?a mod 16 = ?b mod 16"
    using d m by (blast intro: hexDigit_inj)+
  then have "?a = ?b"
    by (metis div_mult_mod_eq)
  then show "c = d" by simp
qed

lemma length_hexEncode: "length (hexEncode bs) = 2 * length bs"
  by (induction bs) (simp_all add: hexEncode_def hexByte_def)

lemma hexEncode_inj: "hexEncode xs = hexEncode ys \<Longrightarrow> xs = ys"
proof (induction xs arbitrary: ys)
  case Nil
  then have "length (hexEncode ys) = 0" by (simp add: hexEncode_def)
  then show ?case by (simp add: length_hexEncode)
next
  case (Cons x xs)
  then obtain y ys' where ys: "ys = y # ys'"
    using length_hexEncode [of ys] length_hexEncode [of "x # xs"] by (cases ys) auto
  from Cons.prems ys have "hexByte x @ hexEncode xs = hexByte y @ hexEncode ys'"
    by (simp add: hexEncode_def)
  moreover have "length (hexByte x) = length (hexByte y)" by (simp add: hexByte_def)
  ultimately have "hexByte x = hexByte y" "hexEncode xs = hexEncode ys'" by simp_all
  with Cons.IH ys show ?case by (simp add: hexByte_inj)
qed

lemma verifySignature_iff:
  "fst (verifySignature hmac appSecret payload signature)
     \<longleftrightarrow> signature = expectedSignature hmac appSecret payload"
  by (auto simp add: verifySignature_def verifySignatureTry_def timingSafeEqual_def)

lemma canActivate_checked:
  assumes "appSecret \<noteq> []" and "bodyTruthy (Some body)"
  shows "fst (canActivate hmac appSecret \<lparr>signatureHeader = h, rawBody = Some body\<rparr>) =
           (if h = Some (expectedSignature hmac appSecret body) then Inr True
            else if truthy h then Inl (UnauthorizedException ''Invalid webhook signature'')
            else Inl (UnauthorizedException ''Missing webhook signature''))"
proof (cases h)
  case None
  with assms show ?thesis by (simp add: canActivate_def)
next
  case (Some sg)
  with assms show ?thesis
    by (auto simp add: canActivate_def Let_def verifySignature_iff expectedSignature_def)
qed

section \<open>Lemmas on binary64 rounding and the rates\<close>

lemma rne_error: "\<bar>of_int (rne z) - z\<bar> \<le> 1 / 2"
proof -
  have "of_int \<lfloor>z\<rfloor> \<le> z" "z < of_int \<lfloor>z\<rfloor> + 1" by linarith+
  then show ?thesis
    by (auto simp add: rne_def Let_def)
qed

lemma rne_of_int: "rne (of_int j) = j"
  by (simp add: rne_def Let_def)

lemma pow2_pos: "0 < (2::rat) powi e"
  by (simp add: power_int_def)

lemma pow2_less_cancel: "(2::rat) powi m < 2 powi n \<Longrightarrow> m < n"
proof (rule ccontr)
  assume a: "(2::rat) powi m < 2 powi n" and "\<not> m < n"
  then have "n \<le> m" by simp
  then have "(2::rat) powi n \<le> 2 powi m" by (intro power_int_increasing) simp_all
  with a show False by simp
qed

lemma expo_bounds:
  assumes "0 < a"
  shows "2 powi expo a \<le> a" and "a < 2 powi (expo a + 1)"
proof -
  obtain p q where pq: "quotient_of a = (p, q)" by (cases "quotient_of a")
  then have q: "0 < q" and a: "a = of_int p / of_int q"
    by (rule quotient_of_denom_pos, rule quotient_of_div)
  from assms a q have p: "0 < p"
    by (simp add: zero_less_divide_iff)
  let ?bp = "bitlen p" and ?bq = "bitlen q"
  from bitlen_bounds [OF p] have bp: "2 ^ nat (?bp - 1) \<le> p" "p < 2 ^ nat ?bp" by simp_all
  from bitlen_bounds [OF q] have bq: "2 ^ nat (?bq - 1) \<le> q" "q < 2 ^ nat ?bq" by simp_all
  from p have bp1: "1 \<le> ?bp" using bitlen_eq_zero_iff [of p] bitlen_nonneg [of p] by linarith
  from q have bq1: "1 \<le> ?bq" using bitlen_eq_zero_iff [of q] bitlen_nonneg [of q] by linarith
  have P1: "(2::rat) powi (?bp - 1) \<le> of_int p"
  proof -
    have "(of_int (2 ^ nat (?bp - 1)) :: rat) \<le> of_int p" using bp(1) by (simp only: of_int_le_iff)
    then show ?thesis using bp1 by (simp add: power_int_def)
  qed
  have P2: "of_int p < (2::rat) powi ?bp"
  proof -
    have "(of_int p :: rat) < of_int (2 ^ nat ?bp)" using bp(2) by (simp only: of_int_less_iff)
    then show ?thesis using bp1 by (simp add: power_int_def)
  qed
  have Q1: "(2::rat) powi (?bq - 1) \<le> of_int q"
  proof -
    have "(of_int (2 ^ nat (?bq - 1)) :: rat) \<le> of_int q" using bq(1) by (simp only: of_int_le_iff)
    then show ?thesis using bq1 by (simp add: power_int_def)
  qed
  have Q2: "of_int q < (2::rat) powi ?bq"
  proof -
    have "(of_int q :: rat) < of_int (2 ^ nat ?bq)" using bq(2) by (simp only: of_int_less_iff)
    then show ?thesis using bq1 by (simp add: power_int_def)
  qed
  let ?c = "?bp - ?bq"
  have qpos: "(0::rat) < of_int q" using q by simp
  have ppos: "(0::rat) < of_int p" using p by simp
  have up: "a < 2 powi (?c + 1)"
  proof -
    have "a * of_int q = of_int p" using a qpos by simp
    also have "\<dots> < 2 powi ?bp" by (rule P2)
    also have "\<dots> = (2::rat) powi (?c + 1) * 2 powi (?bq - 1)"
      by (simp flip: power_int_add)
    also have "\<dots> \<le> 2 powi (?c + 1) * of_int q"
      using Q1 pow2_pos [of "?c + 1"] by (simp add: mult_left_mono)
    finally show ?thesis using qpos by (simp add: mult_less_cancel_right)
  qed
  have lo: "2 powi (?c - 1) \<le> a"
  proof -
    have "(2::rat) powi (?c - 1) * of_int q \<le> 2 powi (?c - 1) * 2 powi ?bq"
      using Q2 pow2_pos [of "?c - 1"] by (simp add: mult_left_mono)
    also have "\<dots> = 2 powi (?bp - 1)"
      by (simp flip: power_int_add)
    also have "\<dots> \<le> of_int p" by (rule P1)
    also have "\<dots> = a * of_int q" using a qpos by simp
    finally show ?thesis using qpos by (simp add: mult_le_cancel_right)
  qed
  have e: "expo a = (if (2::rat) powi ?c \<le> a then ?c else ?c - 1)"
    by (simp add: expo_def pq Let_def)
  show "2 powi expo a \<le> a" using lo by (simp add: e)
  show "a < 2 powi (expo a + 1)" using up by (auto simp add: e not_le)
qed


lemma fl_zero: "fl 0 = 0"
  by (simp add: fl_def)

lemma fl_pos_eq:
  assumes "0 < x"
  shows "fl x = of_int (rne (x / 2 powi (expo x - 52))) * 2 powi (expo x - 52)"
  using assms by (simp add: fl_def Let_def)

lemma fl_error:
  assumes "0 < x"
  shows "\<bar>fl x - x\<bar> \<le> x / 2 ^ 53"
proof -
  let ?e = "expo x - 52"
  let ?z = "x / 2 powi ?e"
  have pe: "(0::rat) < 2 powi ?e" by (rule pow2_pos)
  have "fl x - x = (of_int (rne ?z) - ?z) * 2 powi ?e"
    using pe by (simp add: fl_pos_eq [OF assms] algebra_simps)
  then have "\<bar>fl x - x\<bar> = \<bar>of_int (rne ?z) - ?z\<bar> * 2 powi ?e"
    using pe by (simp add: abs_mult)
  also have "\<dots> \<le> (1 / 2) * 2 powi ?e"
    using rne_error [of ?z] pe by (intro mult_right_mono) simp_all
  also have "\<dots> = 2 powi expo x / 2 ^ 53"
  proof -
    have "(2::rat) powi expo x = 2 powi (?e + 52)" by simp
    also have "\<dots> = 2 powi ?e * 2 powi 52" by (subst power_int_add) simp_all
    finally show ?thesis by simp
  qed
  also have "\<dots> \<le> x / 2 ^ 53"
    using expo_bounds(1) [OF assms] by (simp add: divide_right_mono)
  finally show ?thesis .
qed

lemma fl_nonneg:
  assumes "0 \<le> x"
  shows "0 \<le> fl x"
proof (cases "x = 0")
  case True
  then show ?thesis by (simp add: fl_zero)
next
  case False
  with assms have x: "0 < x" by simp
  from fl_error [OF x] have "x - x / 2 ^ 53 \<le> fl x" by linarith
  moreover have "x / 2 ^ 53 \<le> x" using x by (simp add: field_simps)
  ultimately show ?thesis by linarith
qed

lemma fl_bounds:
  assumes "0 \<le> x"
  shows "\<bar>fl x - x\<bar> \<le> x / 2 ^ 53"
proof (cases "x = 0")
  case True
  then show ?thesis by (simp add: fl_zero)
next
  case False
  with assms show ?thesis by (intro fl_error) simp
qed

lemma fl_of_nat:
  assumes "n < 2 ^ 53"
  shows "fl (of_nat n) = of_nat n"
proof (cases "n = 0")
  case True
  then show ?thesis by (simp add: fl_zero)
next
  case False
  let ?x = "of_nat n :: rat"
  from False have x: "0 < ?x" by simp
  have "?x < of_nat (2 ^ 53)" using assms by (simp only: of_nat_less_iff)
  then have "?x < 2 powi 53" by simp
  with expo_bounds(1) [OF x] have "(2::rat) powi expo ?x < 2 powi 53" by linarith
  then have "expo ?x < 53" by (rule pow2_less_cancel)
  then have e: "expo ?x - 52 \<le> 0" by simp
  define k where "k = nat (- (expo ?x - 52))"
  from e have ek: "expo ?x - 52 = - int k" by (simp add: k_def)
  have pw: "(2::rat) powi (expo ?x - 52) = 1 / 2 ^ k"
    by (simp add: ek power_int_minus_divide)
  have "?x / 2 powi (expo ?x - 52) = of_int (int n * 2 ^ k)"
    by (simp add: pw)
  then have "rne (?x / 2 powi (expo ?x - 52)) = int n * 2 ^ k"
    by (simp only: rne_of_int)
  then show ?thesis
    by (simp add: fl_pos_eq [OF x] pw)
qed


lemma mathRound_error: "\<bar>mathRound y - y\<bar> \<le> 1 / 2"
proof -
  have "of_int \<lfloor>y + 1 / 2\<rfloor> \<le> y + 1 / 2" "y + 1 / 2 < of_int \<lfloor>y + 1 / 2\<rfloor> + 1"
    by linarith+
  then show ?thesis unfolding mathRound_def by linarith
qed

lemma mathRound_nonneg: "0 \<le> y \<Longrightarrow> 0 \<le> mathRound y"
  by (simp add: mathRound_def)

lemma rate_chain:
  fixes S T :: rat
  assumes "0 \<le> S" and "S \<le> T" and "0 < T"
  defines "rate \<equiv> fl (mathRound (fl (fl (fl (S / T) * 100) * 100)) / 100)"
  shows "\<exists>k::int. rate = fl (of_int k / 100)
            \<and> \<bar>of_int k - 10000 * (S / T)\<bar> \<le> 1 / 2 + 1 / 10 ^ 9"
    and "\<bar>rate - 100 * (S / T)\<bar> \<le> 1 / 200 + 1 / 10 ^ 9"
    and "1 / 10 ^ 9 < 10000 * (S / T) + 1 / 2 - of_int \<lfloor>10000 * (S / T) + 1 / 2\<rfloor> \<Longrightarrow>
         10000 * (S / T) + 1 / 2 - of_int \<lfloor>10000 * (S / T) + 1 / 2\<rfloor> < 1 - 1 / 10 ^ 9 \<Longrightarrow>
         rate = fl (of_int \<lfloor>10000 * (S / T) + 1 / 2\<rfloor> / 100)"
proof -
  define u :: rat where "u = 1 / 2 ^ 53"
  define r where "r = S / T"
  define q where "q = fl r"
  define p1 where "p1 = fl (q * 100)"
  define p2 where "p2 = fl (p1 * 100)"
  define k where "k = \<lfloor>p2 + 1 / 2\<rfloor>"
  define eps :: rat where "eps = 1 / 10 ^ 9"
  have u: "0 \<le> u" "70000 * u \<le> eps" "101 * u + eps / 100 \<le> eps" "u \<le> 1" "eps \<le> 1 / 2"
    by (simp_all add: u_def eps_def)
  have fb: "\<bar>fl x - x\<bar> \<le> x * u" if "0 \<le> x" for x
    using fl_bounds [OF that] by (simp add: u_def)
  have r: "0 \<le> r" "r \<le> 1" using assms(1-3) by (simp_all add: r_def)
  have q0: "0 \<le> q" unfolding q_def using r(1) by (rule fl_nonneg)
  have "\<bar>q - r\<bar> \<le> r * u" unfolding q_def using r(1) by (rule fb)
  also have "\<dots> \<le> 1 * u" using r(2) u(1) by (intro mult_right_mono)
  finally have qe: "\<bar>q - r\<bar> \<le> u" by simp
  have q2: "q \<le> 2" using qe r(2) u by linarith
  have q100: "0 \<le> q * 100" using q0 by simp
  have p10: "0 \<le> p1" unfolding p1_def using q100 by (rule fl_nonneg)
  have "\<bar>p1 - q * 100\<bar> \<le> (q * 100) * u" unfolding p1_def using q100 by (rule fb)
  also have "\<dots> \<le> 200 * u" using q2 u(1) by (intro mult_right_mono) simp_all
  finally have p1e: "\<bar>p1 - q * 100\<bar> \<le> 200 * u" .
  have p1b: "p1 \<le> 400" using p1e q2 u by linarith
  have p1100: "0 \<le> p1 * 100" using p10 by simp
  have p20: "0 \<le> p2" unfolding p2_def using p1100 by (rule fl_nonneg)
  have "\<bar>p2 - p1 * 100\<bar> \<le> (p1 * 100) * u" unfolding p2_def using p1100 by (rule fb)
  also have "\<dots> \<le> 40000 * u" using p1b u(1) by (intro mult_right_mono) simp_all
  finally have p2e: "\<bar>p2 - p1 * 100\<bar> \<le> 40000 * u" .
  have tot: "\<bar>p2 - 10000 * r\<bar> \<le> 70000 * u"
    using qe p1e p2e by linarith
  have ke: "\<bar>of_int k - p2\<bar> \<le> 1 / 2"
    using mathRound_error [of p2] by (simp add: mathRound_def k_def)
  have kr': "\<bar>of_int k - 10000 * r\<bar> \<le> 1 / 2 + eps"
    using ke tot u(2) by linarith
  then have kr: "\<bar>of_int k - 10000 * r\<bar> \<le> 1 / 2 + 1 / 10 ^ 9"
    by (simp add: eps_def)
  have rk: "rate = fl (of_int k / 100)"
    by (simp add: rate_def mathRound_def k_def p2_def p1_def q_def r_def)
  from rk kr show "\<exists>k::int. rate = fl (of_int k / 100)
            \<and> \<bar>of_int k - 10000 * (S / T)\<bar> \<le> 1 / 2 + 1 / 10 ^ 9"
    unfolding r_def by blast
  have k0: "(0::rat) \<le> of_int k" using mathRound_nonneg [OF p20] by (simp add: mathRound_def k_def)
  have kb: "(of_int k :: rat) \<le> 10001" using kr' r(2) u by linarith
  have k100: "(0::rat) \<le> of_int k / 100" using k0 by simp
  have "\<bar>rate - of_int k / 100\<bar> \<le> (of_int k / 100) * u"
    unfolding rk using k100 by (rule fb)
  also have "\<dots> \<le> 101 * u" using kb u(1) by (intro mult_right_mono) simp_all
  finally have re: "\<bar>rate - of_int k / 100\<bar> \<le> 101 * u" .
  have "\<bar>rate - 100 * r\<bar> \<le> 1 / 200 + eps"
    using re kr' u(3) by linarith
  then show "\<bar>rate - 100 * (S / T)\<bar> \<le> 1 / 200 + 1 / 10 ^ 9"
    by (simp add: r_def eps_def)
  show "rate = fl (of_int \<lfloor>10000 * (S / T) + 1 / 2\<rfloor> / 100)"
    if a: "1 / 10 ^ 9 < 10000 * (S / T) + 1 / 2 - of_int \<lfloor>10000 * (S / T) + 1 / 2\<rfloor>"
      and b: "10000 * (S / T) + 1 / 2 - of_int \<lfloor>10000 * (S / T) + 1 / 2\<rfloor> < 1 - 1 / 10 ^ 9"
  proof -
    define K where "K = \<lfloor>10000 * r + 1 / 2\<rfloor>"
    from a have a': "eps < 10000 * r + 1 / 2 - of_int K" by (simp add: r_def eps_def K_def)
    from b have b': "10000 * r + 1 / 2 - of_int K < 1 - eps" by (simp add: r_def eps_def K_def)
    have "of_int K \<le> p2 + 1 / 2" using a' tot u(2) by linarith
    moreover have "p2 + 1 / 2 < of_int K + 1" using b' tot u(2) by linarith
    ultimately have "\<lfloor>p2 + 1 / 2\<rfloor> = K" by (rule floor_unique)
    then have "k = K" by (simp add: k_def)
    with rk show ?thesis by (simp add: K_def r_def)
  qed
qed


lemma countDocuments_le_length: "countDocuments s e st docs \<le> length docs"
  by (simp add: countDocuments_def)

lemma countDocuments_delivered_read:
  "countDocuments s e (Some DELIVERED) docs + countDocuments s e (Some READ) docs
     \<le> countDocuments s e None docs"
  unfolding countDocuments_def by (induction docs) auto

lemma matchesDate_iff:
  "matchesDate startDate endDate d \<longleftrightarrow>
     (startDate = None \<and> endDate = None)
     \<or> (\<exists>c. createdAt d = Some c \<and> (\<forall>t. startDate = Some t \<longrightarrow> t \<le> c)
            \<and> (\<forall>t. endDate = Some t \<longrightarrow> c \<le> t))"
  by (auto simp add: matchesDate_def split: option.splits)

lemma getStatistics_window:
  assumes "windowDateOk startDate" and "windowDateOk endDate"
  shows "getStatistics docs startDate endDate =
           Inr (rateStatistics
                 (countDocuments startDate endDate None docs)
                 (countDocuments startDate endDate (Some PENDING) docs)
                 (countDocuments startDate endDate (Some SENT) docs)
                 (countDocuments startDate endDate (Some DELIVERED) docs)
                 (countDocuments startDate endDate (Some READ) docs)
                 (countDocuments startDate endDate (Some FAILED) docs))"
  using assms by (simp add: getStatistics_def)

lemma getStatistics_invalid_window:
  "getStatistics docs (Some invalidDate) endDate = Inl CastError"
  "getStatistics docs startDate (Some invalidDate) = Inl CastError"
  by (simp_all add: getStatistics_def validTime_def invalidDate_def)

lemma rateStatistics_fields:
  "stTotal (rateStatistics t p s d r f) = t"
  "stPending (rateStatistics t p s d r f) = p"
  "stSent (rateStatistics t p s d r f) = s"
  "stDelivered (rateStatistics t p s d r f) = d"
  "stRead (rateStatistics t p s d r f) = r"
  "stFailed (rateStatistics t p s d r f) = f"
  by (simp_all add: rateStatistics_def Let_def)

lemma rateStatistics_rates_only:
  "deliveryRate (rateStatistics t p s d r f) = deliveryRate (rateStatistics t 0 0 d r 0)"
  "readRate (rateStatistics t p s d r f) = readRate (rateStatistics t 0 0 d r 0)"
  by (simp_all add: rateStatistics_def Let_def)

lemma mathRound_zero: "mathRound 0 = 0"
proof -
  have "\<lfloor>1 / 2 :: rat\<rfloor> = 0" by (rule floor_unique) simp_all
  then show ?thesis by (simp add: mathRound_def)
qed

lemma rateStatistics_zero:
  "deliveryRate (rateStatistics 0 p s d r f) = 0"
  "d + r = 0 \<Longrightarrow> readRate (rateStatistics t p s d r f) = 0"
  by (simp_all add: rateStatistics_def Let_def fl_zero mathRound_zero)

lemma rateStatistics_deliveryRate:
  assumes "d + r < 2 ^ 53" and "0 < t"
  shows "deliveryRate (rateStatistics t p s d r f) =
           fl (mathRound (fl (fl (fl (of_nat (d + r) / of_nat t) * 100) * 100)) / 100)"
proof -
  have "fl (of_nat d + of_nat r) = (of_nat (d + r) :: rat)"
    using fl_of_nat [OF assms(1)] by simp
  then show ?thesis using assms(2) by (simp add: rateStatistics_def Let_def)
qed

lemma rateStatistics_readRate:
  assumes "d + r < 2 ^ 53" and "0 < d + r"
  shows "readRate (rateStatistics t p s d r f) =
           fl (mathRound (fl (fl (fl (of_nat r / of_nat (d + r)) * 100) * 100)) / 100)"
proof -
  have "fl (of_nat d + of_nat r) = (of_nat (d + r) :: rat)"
    using fl_of_nat [OF assms(1)] by simp
  moreover have "(0::rat) < of_nat (d + r)" using assms(2) by (simp only: of_nat_0_less_iff)
  ultimately show ?thesis by (simp add: rateStatistics_def Let_def)
qed

lemma rateStatistics_example:
  "deliveryRate (rateStatistics 100 0 0 40 10 0) = 50"
  "readRate (rateStatistics 100 0 0 40 10 0) = 20"
  by code_simp+

text \<open>
  At an exact tie the binary arithmetic decides: 23 of 160 is 14.375 per cent, and the
  product \<open>deliveryRate * 100\<close> comes out just below 1437.5, so the rate is 14.37.
\<close>

lemma rateStatistics_tie:
  "deliveryRate (rateStatistics 160 0 137 23 0 0) = fl (1437 / 100)"
  by code_simp

lemma rateStatistics_tie_value:
  "deliveryRate (rateStatistics 160 0 0 23 0 0) = 8089590830664253 / 562949953421312"
  by code_simp

section \<open>The status mapping\<close>

text \<open>
  Claim C6. The provider status strings \<open>sent\<close>, \<open>delivered\<close>, \<open>read\<close> and \<open>failed\<close>
  are mapped to the enum members of the same name; every other string, the empty string
  and \<open>pending\<close> among them, is mapped to \<open>PENDING\<close>. The mapping is a total function:
  it has a value for every string.
\<close>

theorem mapWhatsAppStatus_cases:
  "mapWhatsAppStatus ''sent'' = SENT \<and>
   mapWhatsAppStatus ''delivered'' = DELIVERED \<and>
   mapWhatsAppStatus ''read'' = READ \<and>
   mapWhatsAppStatus ''failed'' = FAILED \<and>
   mapWhatsAppStatus '''' = PENDING \<and>
   mapWhatsAppStatus ''pending'' = PENDING \<and>
   (\<forall>s. s \<notin> {''sent'', ''delivered'', ''read'', ''failed''} \<longrightarrow> mapWhatsAppStatus s = PENDING)"
  by (simp add: mapWhatsAppStatus_def)

theorem mapWhatsAppStatus_cases_witness:
  "''SENT'' \<notin> {''sent'', ''delivered'', ''read'', ''failed''} \<and> mapWhatsAppStatus ''SENT'' = PENDING"
  using mapWhatsAppStatus_cases by simp

section \<open>The frame of \<open>updateStatus\<close>\<close>

text \<open>
  Claim C9. Every \<open>updateStatus\<close> call on an existing record that \<open>save()\<close> accepts
  (the record is valid against the schema and the timestamp is a valid date) appends
  exactly one entry to \<open>statusHistory\<close> and leaves the entries already there as they
  were, and it leaves \<open>messageId\<close>, \<open>recipientPhone\<close>, \<open>conversationId\<close> and
  \<open>metadata\<close> unchanged. A call that \<open>save()\<close> rejects throws and writes nothing. In
  both cases the record is still found under the same provider message identifier with
  the old history as a prefix of the new one (the history never gets shorter) and the
  same identity fields, no record is added or removed, and the record of every other
  message id is as it was.
\<close>

theorem updateStatus_frame:
  assumes "findOne mid (messageStatusModel w) = Some d"
  shows "(schemaValid d \<and> validTime ts \<longrightarrow>
           (\<exists>d'. findOne mid (messageStatusModel (snd (updateStatus w now mid st ts ec em))) = Some d'
              \<and> fst (updateStatus w now mid st ts ec em) = Inr (Some d')
              \<and> statusHistory d' = statusHistory d @
                   [\<lparr>status = st, timestamp = ts, updErrorCode = ec, updErrorMessage = em\<rparr>]
              \<and> length (statusHistory d') = Suc (length (statusHistory d))))
       \<and> (\<not> (schemaValid d \<and> validTime ts) \<longrightarrow>
             updateStatus w now mid st ts ec em = (Inl ValidationError, w))
       \<and> (conversationId d = None \<or> conversationId d = Some [] \<or> 8640000000000000 < \<bar>ts\<bar> \<longrightarrow>
             updateStatus w now mid st ts ec em = (Inl ValidationError, w))
       \<and> (\<exists>d'. findOne mid (messageStatusModel (snd (updateStatus w now mid st ts ec em))) = Some d'
              \<and> take (length (statusHistory d)) (statusHistory d') = statusHistory d
              \<and> length (statusHistory d) \<le> length (statusHistory d')
              \<and> messageId d' = messageId d
              \<and> recipientPhone d' = recipientPhone d
              \<and> conversationId d' = conversationId d
              \<and> metadata d' = metadata d)
       \<and> length (messageStatusModel (snd (updateStatus w now mid st ts ec em)))
           = length (messageStatusModel w)
       \<and> (\<forall>mid'. mid' \<noteq> mid \<longrightarrow>
             findOne mid' (messageStatusModel (snd (updateStatus w now mid st ts ec em)))
               = findOne mid' (messageStatusModel w))"
proof -
  let ?u = "updateStatus w now mid st ts ec em"
  have B: "?u = (Inl ValidationError, w)" if "\<not> (schemaValid d \<and> validTime ts)"
    using that by (rule updateStatus_rejected [OF assms])
  have R: "?u = (Inl ValidationError, w)"
    if "conversationId d = None \<or> conversationId d = Some [] \<or> 8640000000000000 < \<bar>ts\<bar>"
  proof -
    from that have "\<not> (schemaValid d \<and> validTime ts)"
      by (auto simp add: schemaValid_def validTime_def truthy_iff)
    then show ?thesis by (rule B)
  qed
  have A: "\<exists>d'. findOne mid (messageStatusModel (snd ?u)) = Some d'
              \<and> fst ?u = Inr (Some d')
              \<and> statusHistory d' = statusHistory d @
                   [\<lparr>status = st, timestamp = ts, updErrorCode = ec, updErrorMessage = em\<rparr>]
              \<and> length (statusHistory d') = Suc (length (statusHistory d))"
    if "schemaValid d \<and> validTime ts"
  proof -
    from that have v: "schemaValid d" "validTime ts" by simp_all
    from updateStatus_found [OF assms v, of now st ec em]
    show ?thesis by (simp add: applyUpdate_fields)
  qed
  have C: "\<exists>d'. findOne mid (messageStatusModel (snd ?u)) = Some d'
              \<and> take (length (statusHistory d)) (statusHistory d') = statusHistory d
              \<and> length (statusHistory d) \<le> length (statusHistory d')
              \<and> messageId d' = messageId d
              \<and> recipientPhone d' = recipientPhone d
              \<and> conversationId d' = conversationId d
              \<and> metadata d' = metadata d"
  proof (cases "schemaValid d \<and> validTime ts")
    case True
    then have v: "schemaValid d" "validTime ts" by simp_all
    from updateStatus_found(2) [OF assms v, of now st ec em]
    show ?thesis by (simp add: applyUpdate_fields)
  next
    case False
    from B [OF False] assms show ?thesis by simp
  qed
  have D: "length (messageStatusModel (snd ?u)) = length (messageStatusModel w)"
    by (rule updateStatus_length)
  have E: "findOne mid' (messageStatusModel (snd ?u)) = findOne mid' (messageStatusModel w)"
    if "mid' \<noteq> mid" for mid'
    using that by (rule updateStatus_other)
  from A B R C D E show ?thesis by blast
qed

theorem updateStatus_frame_witness:
  "(\<exists>d'. findOne ''wamid.1'' (messageStatusModel
            (snd (updateStatus twoRecordWorld 5000 ''wamid.1'' READ 4000 None None))) = Some d'
     \<and> fst (updateStatus twoRecordWorld 5000 ''wamid.1'' READ 4000 None None) = Inr (Some d')
     \<and> length (statusHistory d') = 4 \<and> messageId d' = ''wamid.1''
     \<and> recipientPhone d' = ''221700000000'' \<and> conversationId d' = Some ''conv1''
     \<and> metadata d' = None)
   \<and> findOne ''wamid.2'' (messageStatusModel
            (snd (updateStatus twoRecordWorld 5000 ''wamid.1'' READ 4000 None None)))
       = Some sentDoc
   \<and> updateStatus twoRecordWorld 5000 ''wamid.1'' READ invalidDate None None
       = (Inl ValidationError, twoRecordWorld)"
proof -
  have v: "schemaValid deliveredDoc \<and> validTime 4000" "\<not> validTime invalidDate"
    by (simp_all add: deliveredDoc_valid validTime_def invalidDate_def)
  have n: "''wamid.2'' \<noteq> ''wamid.1''" by simp
  from updateStatus_frame [OF deliveredDoc_found(2), of 4000 5000 READ None None]
       updateStatus_frame [OF deliveredDoc_found(2), of invalidDate 5000 READ None None]
       deliveredDoc_found(3) n v
  show ?thesis by (auto simp add: deliveredDoc_def)
qed

section \<open>The same event applied twice\<close>

text \<open>
  Claim C7. Applying the identical status event twice (same message id, status and
  timestamp) to an existing record appends two history entries, and the second
  application leaves \<open>currentStatus\<close> equal to what it was after the first. The record
  is one that \<open>save()\<close> accepts (valid against the schema) and the timestamp a valid
  date; otherwise both applications throw and write nothing.
\<close>

theorem updateStatus_twice:
  assumes "findOne mid (messageStatusModel w) = Some d"
    and "schemaValid d" and "validTime ts"
  shows "let e = \<lparr>status = st, timestamp = ts, updErrorCode = ec, updErrorMessage = em\<rparr>;
             w1 = snd (updateStatus w now1 mid st ts ec em);
             w2 = snd (updateStatus w1 now2 mid st ts ec em)
         in map_option statusHistory (findOne mid (messageStatusModel w2))
              = Some (statusHistory d @ [e, e])
          \<and> map_option currentStatus (findOne mid (messageStatusModel w1)) = Some st
          \<and> map_option currentStatus (findOne mid (messageStatusModel w2))
              = map_option currentStatus (findOne mid (messageStatusModel w1))"
proof -
  let ?w1 = "snd (updateStatus w now1 mid st ts ec em)"
  have f1: "findOne mid (messageStatusModel ?w1) = Some (applyUpdate now1 st ts ec em d)"
    by (rule updateStatus_found(2) [OF assms])
  have v1: "schemaValid (applyUpdate now1 st ts ec em d)"
    using assms(2,3) by (simp add: schemaValid_applyUpdate)
  have f2: "findOne mid (messageStatusModel (snd (updateStatus ?w1 now2 mid st ts ec em)))
              = Some (applyUpdate now2 st ts ec em (applyUpdate now1 st ts ec em d))"
    by (rule updateStatus_found(2) [OF f1 v1 assms(3)])
  show ?thesis by (simp add: Let_def f1 f2 applyUpdate_fields)
qed

theorem updateStatus_twice_witness:
  "map_option statusHistory (findOne ''wamid.1'' (messageStatusModel
      (snd (updateStatus (snd (updateStatus deliveredWorld 5000 ''wamid.1'' READ 4000 None None))
              5001 ''wamid.1'' READ 4000 None None))))
   = Some (statusHistory deliveredDoc @
       [\<lparr>status = READ, timestamp = 4000, updErrorCode = None, updErrorMessage = None\<rparr>,
        \<lparr>status = READ, timestamp = 4000, updErrorCode = None, updErrorMessage = None\<rparr>])"
proof -
  have v: "validTime 4000" by (simp add: validTime_def)
  from updateStatus_twice [OF deliveredDoc_found(1) deliveredDoc_valid v, of READ None None 5000 5001]
  show ?thesis by (simp add: Let_def)
qed

section \<open>The current status over a sequence of calls\<close>

text \<open>
  Claim C1 says that a call whose status precedes the record's current status in the
  ordering pending, sent, delivered, read leaves \<open>currentStatus\<close> unchanged. The code
  assigns \<open>currentStatus\<close> on every call: on a record that is \<open>delivered\<close>, a late
  \<open>sent\<close> event makes it \<open>sent\<close>.
\<close>

theorem updateStatus_regresses_counterexample:
  "map_option currentStatus (findOne ''wamid.1'' (messageStatusModel deliveredWorld))
     = Some DELIVERED
   \<and> map_option currentStatus (findOne ''wamid.1'' (messageStatusModel
        (snd (updateStatus deliveredWorld 5000 ''wamid.1'' SENT 2500 None None))))
     = Some SENT"
  by (simp add: updateStatus_def findOne_def deliveredWorld_def deliveredDoc_def
      applyUpdate_def Let_def schemaValid_def validTime_def)

text \<open>
  Claim C1, amended. For every existing record that is valid against the schema and
  every non-empty sequence of \<open>updateStatus\<close> calls on its message id whose timestamps
  are valid dates, each call appends its history entry and \<open>currentStatus\<close> afterwards
  is the status of the last call, whether or not that status precedes an earlier one
  in the ordering.
\<close>

theorem updateStatusSeq_last_wins:
  assumes "findOne mid (messageStatusModel w) = Some d" and "schemaValid d"
    and "cs \<noteq> []" and "\<forall>c \<in> set cs. validTime (callTimestamp c)"
  shows "map_option currentStatus (findOne mid (messageStatusModel (updateStatusSeq w mid cs)))
           = Some (callStatus (last cs))
       \<and> map_option statusHistory (findOne mid (messageStatusModel (updateStatusSeq w mid cs)))
           = Some (statusHistory d @ map historyEntry cs)"
  using updateStatusSeq_found [OF assms(1,2,4)] assms(3) by auto

theorem updateStatusSeq_last_wins_witness:
  "map_option currentStatus (findOne ''wamid.1'' (messageStatusModel
      (updateStatusSeq deliveredWorld ''wamid.1''
         [\<lparr>callNow = 5000, callStatus = READ, callTimestamp = 4000,
           callErrorCode = None, callErrorMessage = None\<rparr>,
          \<lparr>callNow = 5001, callStatus = SENT, callTimestamp = 2000,
           callErrorCode = None, callErrorMessage = None\<rparr>])))
   = Some SENT"
proof -
  let ?cs = "[\<lparr>callNow = 5000, callStatus = READ, callTimestamp = 4000,
           callErrorCode = None, callErrorMessage = None\<rparr>,
          \<lparr>callNow = 5001, callStatus = SENT, callTimestamp = 2000,
           callErrorCode = None, callErrorMessage = None\<rparr>]"
  have v: "\<forall>c \<in> set ?cs. validTime (callTimestamp c)" by (simp add: validTime_def)
  have n: "?cs \<noteq> []" by simp
  from updateStatusSeq_last_wins [OF deliveredDoc_found(1) deliveredDoc_valid n v]
  show ?thesis by simp
qed

section \<open>Publication after an update\<close>

text \<open>
  Claim C8. Every successful \<open>updateStatus\<close> on an existing record (one that \<open>save()\<close>
  accepts: the record valid against the schema, the timestamp a valid date), whatever
  the new and the current status are, is followed by one publication of the event:
  what has been emitted grows by exactly what \<open>emitMessageStatusUpdate\<close> emits for the
  event. The gateway emits, for every event, in this order: to the room of the
  recipient, then to the room of the conversation if and only if the event carries a
  conversation id (defined and not empty), then to every client. A stored record that
  \<open>save()\<close> accepts has a conversation id, so its update reaches all three.
\<close>

theorem updateStatus_publishes:
  "(findOne mid (messageStatusModel w) = Some d \<and> schemaValid d \<and> validTime ts \<longrightarrow>
      (let ev = \<lparr>evMessageId = mid, evRecipientPhone = recipientPhone d,
                  evConversationId = conversationId d, evStatus = st, evTimestamp = ts,
                  evErrorCode = ec, evErrorMessage = em\<rparr>
       in emitted (snd (updateStatus w now mid st ts ec em)) =
            emitted w @ emitMessageStatusUpdate ev
        \<and> emitMessageStatusUpdate ev =
            [ToRoom (''status-'' @ recipientPhone d) ''messageStatusUpdate'' ev,
             ToRoom (''conversation-'' @ the (conversationId d)) ''messageStatusUpdate'' ev,
             Broadcast ''messageStatusChanged'' ev]))
   \<and> emitMessageStatusUpdate data =
        (if evConversationId data = None \<or> evConversationId data = Some []
         then [ToRoom (''status-'' @ evRecipientPhone data) ''messageStatusUpdate'' data,
               Broadcast ''messageStatusChanged'' data]
         else [ToRoom (''status-'' @ evRecipientPhone data) ''messageStatusUpdate'' data,
               ToRoom (''conversation-'' @ the (evConversationId data)) ''messageStatusUpdate'' data,
               Broadcast ''messageStatusChanged'' data])"
proof -
  have g: "emitMessageStatusUpdate data =
        (if evConversationId data = None \<or> evConversationId data = Some []
         then [ToRoom (''status-'' @ evRecipientPhone data) ''messageStatusUpdate'' data,
               Broadcast ''messageStatusChanged'' data]
         else [ToRoom (''status-'' @ evRecipientPhone data) ''messageStatusUpdate'' data,
               ToRoom (''conversation-'' @ the (evConversationId data)) ''messageStatusUpdate'' data,
               Broadcast ''messageStatusChanged'' data])" for data
    by (cases "evConversationId data") (simp_all add: emitMessageStatusUpdate_def)
  have u: "let ev = \<lparr>evMessageId = mid, evRecipientPhone = recipientPhone d,
                  evConversationId = conversationId d, evStatus = st, evTimestamp = ts,
                  evErrorCode = ec, evErrorMessage = em\<rparr>
       in emitted (snd (updateStatus w now mid st ts ec em)) =
            emitted w @ emitMessageStatusUpdate ev
        \<and> emitMessageStatusUpdate ev =
            [ToRoom (''status-'' @ recipientPhone d) ''messageStatusUpdate'' ev,
             ToRoom (''conversation-'' @ the (conversationId d)) ''messageStatusUpdate'' ev,
             Broadcast ''messageStatusChanged'' ev]"
    if h: "findOne mid (messageStatusModel w) = Some d" "schemaValid d" "validTime ts"
  proof -
    from h(2) have "truthy (conversationId d)" by (simp add: schemaValid_def)
    then have c: "conversationId d \<noteq> None" "conversationId d \<noteq> Some []"
      by (cases "conversationId d"; simp)+
    show ?thesis
      using updateStatus_emitted [OF h, of now st ec em] c
      by (simp add: Let_def g)
  qed
  from g [of data] u show ?thesis by blast
qed

theorem updateStatus_publishes_witness:
  "emitted (snd (updateStatus deliveredWorld 5000 ''wamid.1'' SENT 2500 None None)) =
     (let ev = \<lparr>evMessageId = ''wamid.1'', evRecipientPhone = ''221700000000'',
                evConversationId = Some ''conv1'', evStatus = SENT, evTimestamp = 2500,
                evErrorCode = None, evErrorMessage = None\<rparr>
      in [ToRoom ''status-221700000000'' ''messageStatusUpdate'' ev,
          ToRoom ''conversation-conv1'' ''messageStatusUpdate'' ev,
          Broadcast ''messageStatusChanged'' ev])
   \<and> emitMessageStatusUpdate plainEvent =
       [ToRoom ''status-221700000000'' ''messageStatusUpdate'' plainEvent,
        Broadcast ''messageStatusChanged'' plainEvent]"
proof -
  have v: "validTime 2500" by (simp add: validTime_def)
  have p: "evConversationId plainEvent = None" "evRecipientPhone plainEvent = ''221700000000''"
    by (simp_all add: plainEvent_def)
  from updateStatus_publishes [of "''wamid.1''" deliveredWorld deliveredDoc 2500 SENT None None
      5000 plainEvent] deliveredDoc_found(1) deliveredDoc_valid v p
  show ?thesis by (simp add: Let_def deliveredDoc_def deliveredWorld_def)
qed

section \<open>Callbacks for unknown message ids\<close>

text \<open>
  Claim C4. An \<open>updateStatus\<close> call whose message id matches no record returns
  \<open>null\<close> and changes nothing but the log, where it adds a warning; it does so
  whatever the timestamp is. A status callback none of whose entries matches a record
  leaves the collection and the emissions as they were, whatever the collaborators do;
  when the collaborators do not throw, the handler answers \<open>{ status: "ok" }\<close> and one
  warning per entry has been logged. (The handler returns a response value in every
  case: a throw inside it becomes the body \<open>{ status: "error" }\<close>.)
\<close>

theorem orphan_status_dropped:
  assumes "findOne mid (messageStatusModel w) = None"
    and "extractValue webhookData = Some v" and "messages v = None" and "statuses v = Some sts"
    and "\<forall>s \<in> set sts. findOne (wa_id s) (messageStatusModel w) = None"
  shows "updateStatus w now mid st ts ec em =
           (Inr None, w\<lparr>logged := logged w @ [(WARN, ''Message status not found for '' @ mid)]\<rparr>)
       \<and> messageStatusModel (fst (snd (receiveWebhook addW updW handleM now (w, x) webhookData)))
           = messageStatusModel w
       \<and> emitted (fst (snd (receiveWebhook addW updW handleM now (w, x) webhookData))) = emitted w
       \<and> ((\<forall>t u y. fst (addW t u y) = None) \<and> (\<forall>i s y. fst (updW i s y) = None) \<longrightarrow>
            fst (receiveWebhook addW updW handleM now (w, x) webhookData) = Ok
          \<and> logged (fst (snd (receiveWebhook addW updW handleM now (w, x) webhookData))) =
              logged w @ map (\<lambda>s. (WARN, ''Message status not found for '' @ wa_id s)) sts)"
proof -
  have a: "updateStatus w now mid st ts ec em =
           (Inr None, w\<lparr>logged := logged w @ [(WARN, ''Message status not found for '' @ mid)]\<rparr>)"
    by (rule updateStatus_missing [OF assms(1)])
  have b: "messageStatusModel (fst (snd (receiveWebhook addW updW handleM now (w, x) webhookData)))
           = messageStatusModel w
       \<and> emitted (fst (snd (receiveWebhook addW updW handleM now (w, x) webhookData))) = emitted w"
    using processStatuses_orphans [OF assms(5), of updW now] assms(2,3,4)
    by (simp add: receiveWebhook_def Let_def split: option.splits)
  have c: "fst (receiveWebhook addW updW handleM now (w, x) webhookData) = Ok
          \<and> logged (fst (snd (receiveWebhook addW updW handleM now (w, x) webhookData))) =
              logged w @ map (\<lambda>s. (WARN, ''Message status not found for '' @ wa_id s)) sts"
    if h: "\<forall>t u y. fst (addW t u y) = None" "\<forall>i s y. fst (updW i s y) = None"
    using processStatuses_orphans_ok [OF assms(5) h(2), of now] h(1) assms(2,3,4)
    by (simp add: receiveWebhook_def Let_def split: option.splits)
  from a b c show ?thesis by blast
qed

theorem orphan_status_dropped_witness:
  "updateStatus deliveredWorld 5000 ''wamid.unknown'' DELIVERED 1699999999000 None None =
     (Inr None, deliveredWorld\<lparr>logged := [(WARN, ''Message status not found for wamid.unknown'')]\<rparr>)
   \<and> receiveWebhook quietAdd quietUpdate quietMessages 5000 (deliveredWorld, ()) orphanWebhook =
     (Ok, (deliveredWorld\<lparr>logged := [(WARN, ''Message status not found for wamid.unknown'')]\<rparr>, ()))"
proof -
  let ?v = "\<lparr>messages = None,
         statuses = Some [\<lparr>wa_id = ''wamid.unknown'', wa_status = ''delivered'',
                           wa_timestamp = Some 1699999999, wa_errors = None\<rparr>]\<rparr> :: unit webhook_value"
  have h1: "findOne ''wamid.unknown'' (messageStatusModel deliveredWorld) = None"
    by (simp add: findOne_def deliveredWorld_def deliveredDoc_def)
  have h2: "extractValue orphanWebhook = Some ?v"
    by (simp add: extractValue_def orphanWebhook_def)
  have h3: "\<forall>s \<in> set [\<lparr>wa_id = ''wamid.unknown'', wa_status = ''delivered'',
                           wa_timestamp = Some 1699999999, wa_errors = None\<rparr>].
              findOne (wa_id s) (messageStatusModel deliveredWorld) = None"
    using h1 by simp
  have q: "(\<forall>t u y. fst (quietAdd t u y) = None) \<and> (\<forall>i s y. fst (quietUpdate i s y) = None)"
    by (simp add: quietAdd_def quietUpdate_def)
  from orphan_status_dropped [OF h1 h2 _ _ h3, of 5000 DELIVERED 1699999999000 None None
      quietAdd quietUpdate quietMessages "()"] q
  have "updateStatus deliveredWorld 5000 ''wamid.unknown'' DELIVERED 1699999999000 None None =
     (Inr None, deliveredWorld\<lparr>logged := logged deliveredWorld @
        [(WARN, ''Message status not found for '' @ ''wamid.unknown'')]\<rparr>)"
    and "fst (receiveWebhook quietAdd quietUpdate quietMessages 5000 (deliveredWorld, ()) orphanWebhook) = Ok"
    and "messageStatusModel (fst (snd (receiveWebhook quietAdd quietUpdate quietMessages 5000
            (deliveredWorld, ()) orphanWebhook))) = messageStatusModel deliveredWorld"
    and "emitted (fst (snd (receiveWebhook quietAdd quietUpdate quietMessages 5000
            (deliveredWorld, ()) orphanWebhook))) = emitted deliveredWorld"
    and "logged (fst (snd (receiveWebhook quietAdd quietUpdate quietMessages 5000
            (deliveredWorld, ()) orphanWebhook))) =
          logged deliveredWorld @ [(WARN, ''Message status not found for '' @ ''wamid.unknown'')]"
    by simp_all
  then show ?thesis
    by (cases "receiveWebhook quietAdd quietUpdate quietMessages 5000 (deliveredWorld, ()) orphanWebhook")
       (auto simp add: deliveredWorld_def)
qed

section \<open>What the signature guard accepts\<close>

text \<open>
  Claim C3. With a secret configured the guard accepts exactly the requests whose raw
  body is present and whose header equals \<open>sha256=\<close> followed by the lower-case
  hexadecimal HMAC of the raw body under the secret; every other request is rejected
  with an \<open>UnauthorizedException\<close>: a missing or empty header, whatever the body; a
  missing raw body (or an empty string for it), whatever the header; any other
  signature, so any altered one. The correctly computed signature is accepted, and the
  signature of one body is rejected for another body whose HMAC differs. With no secret
  configured every request is accepted, with a warning logged.
\<close>

theorem canActivate_accepts_exactly:
  "(appSecret \<noteq> [] \<and> bodyTruthy (Some body) \<longrightarrow>
      (fst (canActivate hmac appSecret \<lparr>signatureHeader = h, rawBody = Some body\<rparr>) = Inr True
         \<longleftrightarrow> h = Some (''sha256='' @ hexEncode (hmac appSecret (bodyBytes body))))
    \<and> (fst (canActivate hmac appSecret \<lparr>signatureHeader = h, rawBody = Some body\<rparr>) = Inr True
        \<or> (\<exists>msg. fst (canActivate hmac appSecret \<lparr>signatureHeader = h, rawBody = Some body\<rparr>)
                    = Inl (UnauthorizedException msg)))
    \<and> fst (canActivate hmac appSecret
              \<lparr>signatureHeader = Some (expectedSignature hmac appSecret body),
               rawBody = Some body\<rparr>) = Inr True
    \<and> (sg \<noteq> expectedSignature hmac appSecret body \<longrightarrow>
         (\<exists>msg. fst (canActivate hmac appSecret \<lparr>signatureHeader = Some sg, rawBody = Some body\<rparr>)
                  = Inl (UnauthorizedException msg)))
    \<and> (bodyTruthy (Some body') \<and> hmac appSecret (bodyBytes body') \<noteq> hmac appSecret (bodyBytes body) \<longrightarrow>
         fst (canActivate hmac appSecret
                \<lparr>signatureHeader = Some (expectedSignature hmac appSecret body),
                 rawBody = Some body'\<rparr>) = Inl (UnauthorizedException ''Invalid webhook signature'')))
   \<and> (appSecret \<noteq> [] \<longrightarrow>
        fst (canActivate hmac appSecret \<lparr>signatureHeader = None, rawBody = b\<rparr>)
          = Inl (UnauthorizedException ''Missing webhook signature'')
      \<and> fst (canActivate hmac appSecret \<lparr>signatureHeader = Some (expectedSignature hmac appSecret body), rawBody = None\<rparr>)
          = Inl (UnauthorizedException ''Cannot verify webhook signature''))
   \<and> canActivate hmac [] req =
        (Inr True,
         [(WARN, ''WHATSAPP_APP_SECRET not configured - webhook signature verification skipped'')])
   \<and> (appSecret \<noteq> [] \<longrightarrow>
        fst (canActivate hmac appSecret \<lparr>signatureHeader = h0, rawBody = b0\<rparr>) =
          (if h0 = None \<or> h0 = Some [] then
             Inl (UnauthorizedException ''Missing webhook signature'')
           else if b0 = None \<or> b0 = Some (StringBody []) then
             Inl (UnauthorizedException ''Cannot verify webhook signature'')
           else if h0 = Some (''sha256='' @ hexEncode (hmac appSecret (bodyBytes (the b0)))) then
             Inr True
           else Inl (UnauthorizedException ''Invalid webhook signature'')))"
proof -
  have e: "expectedSignature hmac appSecret body
             = ''sha256='' @ hexEncode (hmac appSecret (bodyBytes body))"
    by (simp add: expectedSignature_def)
  have ne: "expectedSignature hmac appSecret body' \<noteq> expectedSignature hmac appSecret body"
    if "hmac appSecret (bodyBytes body') \<noteq> hmac appSecret (bodyBytes body)"
    using that by (auto simp add: expectedSignature_def dest: hexEncode_inj)
  have t: "truthy (Some (expectedSignature hmac appSecret body))"
    by (simp add: expectedSignature_def)
  have p1: "fst (canActivate hmac appSecret \<lparr>signatureHeader = h, rawBody = Some body\<rparr>) = Inr True
         \<longleftrightarrow> h = Some (''sha256='' @ hexEncode (hmac appSecret (bodyBytes body)))"
    if "appSecret \<noteq> []" "bodyTruthy (Some body)"
    using canActivate_checked [OF that, of hmac h] by (simp add: e)
  have p2: "fst (canActivate hmac appSecret \<lparr>signatureHeader = h, rawBody = Some body\<rparr>) = Inr True
        \<or> (\<exists>msg. fst (canActivate hmac appSecret \<lparr>signatureHeader = h, rawBody = Some body\<rparr>)
                    = Inl (UnauthorizedException msg))"
    if "appSecret \<noteq> []" "bodyTruthy (Some body)"
    using canActivate_checked [OF that, of hmac h] by simp
  have p3: "fst (canActivate hmac appSecret
              \<lparr>signatureHeader = Some (expectedSignature hmac appSecret body),
               rawBody = Some body\<rparr>) = Inr True"
    if "appSecret \<noteq> []" "bodyTruthy (Some body)"
    using canActivate_checked [OF that, of hmac "Some (expectedSignature hmac appSecret body)"]
    by simp
  have p4: "\<exists>msg. fst (canActivate hmac appSecret \<lparr>signatureHeader = Some sg, rawBody = Some body\<rparr>)
                  = Inl (UnauthorizedException msg)"
    if "appSecret \<noteq> []" "bodyTruthy (Some body)" "sg \<noteq> expectedSignature hmac appSecret body"
    using canActivate_checked [OF that(1,2), of hmac "Some sg"] that(3) by simp
  have p5: "fst (canActivate hmac appSecret
                \<lparr>signatureHeader = Some (expectedSignature hmac appSecret body),
                 rawBody = Some body'\<rparr>) = Inl (UnauthorizedException ''Invalid webhook signature'')"
    if "appSecret \<noteq> []" "bodyTruthy (Some body')"
       "hmac appSecret (bodyBytes body') \<noteq> hmac appSecret (bodyBytes body)"
    using canActivate_checked [OF that(1,2), of hmac "Some (expectedSignature hmac appSecret body)"]
      ne [OF that(3)] t by (simp del: truthy.simps)
  have p6: "fst (canActivate hmac appSecret \<lparr>signatureHeader = None, rawBody = b\<rparr>)
          = Inl (UnauthorizedException ''Missing webhook signature'')"
    if "appSecret \<noteq> []"
    using that by (simp add: canActivate_def)
  have p7: "fst (canActivate hmac appSecret \<lparr>signatureHeader = Some (expectedSignature hmac appSecret body), rawBody = None\<rparr>)
          = Inl (UnauthorizedException ''Cannot verify webhook signature'')"
    if "appSecret \<noteq> []"
    using that t by (simp add: canActivate_def del: truthy.simps)
  have p8: "canActivate hmac [] req =
        (Inr True,
         [(WARN, ''WHATSAPP_APP_SECRET not configured - webhook signature verification skipped'')])"
    by (simp add: canActivate_def)
  have p9: "fst (canActivate hmac appSecret \<lparr>signatureHeader = h0, rawBody = b0\<rparr>) =
          (if h0 = None \<or> h0 = Some [] then
             Inl (UnauthorizedException ''Missing webhook signature'')
           else if b0 = None \<or> b0 = Some (StringBody []) then
             Inl (UnauthorizedException ''Cannot verify webhook signature'')
           else if h0 = Some (''sha256='' @ hexEncode (hmac appSecret (bodyBytes (the b0)))) then
             Inr True
           else Inl (UnauthorizedException ''Invalid webhook signature''))"
    if s: "appSecret \<noteq> []"
  proof (cases "truthy h0")
    case False
    then have "h0 = None \<or> h0 = Some []" by (cases h0) simp_all
    with s False show ?thesis by (auto simp add: canActivate_def)
  next
    case True
    then obtain sg0 where h0: "h0 = Some sg0" "sg0 \<noteq> []" by (cases h0) simp_all
    show ?thesis
    proof (cases "bodyTruthy b0")
      case False
      then have "b0 = None \<or> b0 = Some (StringBody [])"
        by (cases b0 rule: bodyTruthy.cases) simp_all
      with s h0 False show ?thesis by (auto simp add: canActivate_def)
    next
      case bt: True
      then obtain body0 where b0: "b0 = Some body0" "body0 \<noteq> StringBody []"
        by (cases b0 rule: bodyTruthy.cases) auto
      from canActivate_checked [OF s, of body0 hmac h0] bt b0 h0
      show ?thesis by (simp add: expectedSignature_def)
    qed
  qed
  from p1 p2 p3 p4 p5 p6 p7 p8 p9 show ?thesis by blast
qed

theorem canActivate_accepts_exactly_witness:
  "fst (canActivate sampleHmac ''k''
          \<lparr>signatureHeader = Some ''sha256=6b7b7d'', rawBody = Some (BufferBody ''{}'')\<rparr>) = Inr True
   \<and> (\<exists>msg. fst (canActivate sampleHmac ''k''
          \<lparr>signatureHeader = Some ''sha256=6b7b7e'', rawBody = Some (BufferBody ''{}'')\<rparr>)
        = Inl (UnauthorizedException msg))
   \<and> fst (canActivate sampleHmac ''k''
          \<lparr>signatureHeader = Some ''sha256=6b7b7d'', rawBody = Some (BufferBody ''[]'')\<rparr>)
        = Inl (UnauthorizedException ''Invalid webhook signature'')
   \<and> fst (canActivate sampleHmac ''k'' \<lparr>signatureHeader = Some ''garbage'', rawBody = None\<rparr>)
        = Inl (UnauthorizedException ''Cannot verify webhook signature'')
   \<and> fst (canActivate sampleHmac ''k''
          \<lparr>signatureHeader = Some ''sha256=6b'', rawBody = Some (StringBody [])\<rparr>)
        = Inl (UnauthorizedException ''Cannot verify webhook signature'')"
proof -
  have x: "expectedSignature sampleHmac ''k'' (BufferBody ''{}'') = ''sha256=6b7b7d''"
    by (simp add: expectedSignature_def sampleHmac_def hexEncode_def hexByte_def hexDigit_def)
  have hyp: "''k'' \<noteq> [] \<and> bodyTruthy (Some (BufferBody ''{}''))
           \<and> bodyTruthy (Some (BufferBody ''[]''))
           \<and> ''sha256=6b7b7e'' \<noteq> expectedSignature sampleHmac ''k'' (BufferBody ''{}'')
           \<and> sampleHmac ''k'' (bodyBytes (BufferBody ''[]''))
               \<noteq> sampleHmac ''k'' (bodyBytes (BufferBody ''{}''))"
    by (simp add: x sampleHmac_def)
  let ?r = "\<lparr>signatureHeader = None, rawBody = None\<rparr>"
  note a = canActivate_accepts_exactly [where appSecret = "''k''" and body = "BufferBody ''{}''"
      and hmac = sampleHmac and h = "Some ''sha256=6b7b7d''" and sg = "''sha256=6b7b7e''"
      and body' = "BufferBody ''[]''" and b = None and req = ?r
      and ?h0.0 = "Some ''garbage''" and ?b0.0 = None]
  note b = canActivate_accepts_exactly [where appSecret = "''k''" and body = "BufferBody ''{}''"
      and hmac = sampleHmac and h = "Some ''sha256=6b7b7d''" and sg = "''sha256=6b7b7e''"
      and body' = "BufferBody ''[]''" and b = None and req = ?r
      and ?h0.0 = "Some ''sha256=6b''" and ?b0.0 = "Some (StringBody [])"]
  from a hyp x have
    "fst (canActivate sampleHmac ''k''
          \<lparr>signatureHeader = Some ''sha256=6b7b7d'', rawBody = Some (BufferBody ''{}'')\<rparr>) = Inr True"
    "\<exists>msg. fst (canActivate sampleHmac ''k''
          \<lparr>signatureHeader = Some ''sha256=6b7b7e'', rawBody = Some (BufferBody ''{}'')\<rparr>)
        = Inl (UnauthorizedException msg)"
    "fst (canActivate sampleHmac ''k''
          \<lparr>signatureHeader = Some ''sha256=6b7b7d'', rawBody = Some (BufferBody ''[]'')\<rparr>)
        = Inl (UnauthorizedException ''Invalid webhook signature'')"
    "fst (canActivate sampleHmac ''k'' \<lparr>signatureHeader = Some ''garbage'', rawBody = None\<rparr>)
        = Inl (UnauthorizedException ''Cannot verify webhook signature'')"
    by simp_all
  moreover from b have
    "fst (canActivate sampleHmac ''k''
          \<lparr>signatureHeader = Some ''sha256=6b'', rawBody = Some (StringBody [])\<rparr>)
        = Inl (UnauthorizedException ''Cannot verify webhook signature'')"
    by simp
  ultimately show ?thesis by blast
qed

section \<open>Totality of \<open>verifySignature\<close>\<close>

text \<open>
  Claim C10. \<open>verifySignature\<close> returns a boolean for every payload and every
  signature string. When the signature's byte length differs from that of the expected
  string (\<open>sha256=\<close> and two digits per digest byte), the comparison inside the
  \<open>try\<close> block throws, and the function returns \<open>false\<close> after logging the error;
  when the lengths agree it returns whether the two strings are equal.
\<close>
theorem verifySignature_total:
  "(length signature \<noteq> length (expectedSignature hmac appSecret payload) \<longrightarrow>
      verifySignatureTry hmac appSecret payload signature
        = Inl (RangeError ''Input buffers must have the same byte length'')
    \<and> verifySignature hmac appSecret payload signature =
        (False, [(ERROR, ''Signature verification error: Input buffers must have the same byte length'')]))
   \<and> (length signature = length (expectedSignature hmac appSecret payload) \<longrightarrow>
      verifySignature hmac appSecret payload signature
        = (signature = expectedSignature hmac appSecret payload, []))
   \<and> length (expectedSignature hmac appSecret payload)
        = 7 + 2 * length (hmac appSecret (bodyBytes payload))"
  by (simp add: verifySignature_def verifySignatureTry_def timingSafeEqual_def
      expectedSignature_def length_hexEncode)


theorem verifySignature_total_witness:
  "length ''sha256=invalid-signature-hash''
     \<noteq> length (expectedSignature sampleHmac ''k'' (BufferBody ''{}''))
   \<and> verifySignature sampleHmac ''k'' (BufferBody ''{}'') ''sha256=invalid-signature-hash'' =
        (False, [(ERROR, ''Signature verification error: Input buffers must have the same byte length'')])
   \<and> length ''sha256=6b7b7e'' = length (expectedSignature sampleHmac ''k'' (BufferBody ''{}''))
   \<and> verifySignature sampleHmac ''k'' (BufferBody ''{}'') ''sha256=6b7b7e'' = (False, [])
   \<and> verifySignature sampleHmac ''k'' (BufferBody ''{}'') ''sha256=6b7b7d'' = (True, [])"
proof -
  have x: "expectedSignature sampleHmac ''k'' (BufferBody ''{}'') = ''sha256=6b7b7d''"
    by (simp add: expectedSignature_def sampleHmac_def hexEncode_def hexByte_def hexDigit_def)
  from verifySignature_total [of "''sha256=invalid-signature-hash''" sampleHmac "''k''" "BufferBody ''{}''"]
       verifySignature_total [of "''sha256=6b7b7e''" sampleHmac "''k''" "BufferBody ''{}''"]
       verifySignature_total [of "''sha256=6b7b7d''" sampleHmac "''k''" "BufferBody ''{}''"]
  show ?thesis by (simp add: x)
qed

section \<open>A successful send and the status collection\<close>

text \<open>
  Claim C2 says that a successful provider send creates a record with status
  \<open>pending\<close> under the returned message identifier. In the code the send path never
  reaches \<open>createMessageStatus\<close>: a \<open>send-text\<close> job to \<open>+221700000000\<close> that the
  provider accepts with identifier \<open>wamid.1\<close> returns that response and leaves the
  collection empty, so the status callback for \<open>wamid.1\<close> that follows finds no record
  and is dropped.
\<close>

theorem sendText_seeds_no_record:
  "fst (processTextMessage acceptingProvider quietAddPayload (emptyWorld, ())
          \<lparr>jobTo = ''+221700000000'', jobText = ''hello''\<rparr>)
     = Inr \<lparr>respMessagingProduct = ''whatsapp'',
            respContacts = [\<lparr>ctInput = ''+221700000000'', ctWaId = ''+221700000000''\<rparr>],
            respMessages = [\<lparr>refId = ''wamid.1'', refMessageStatus = None\<rparr>]\<rparr>
   \<and> messageStatusModel (fst (snd (processTextMessage acceptingProvider quietAddPayload
          (emptyWorld, ()) \<lparr>jobTo = ''+221700000000'', jobText = ''hello''\<rparr>))) = []
   \<and> fst (updateStatus (fst (snd (processTextMessage acceptingProvider quietAddPayload
          (emptyWorld, ()) \<lparr>jobTo = ''+221700000000'', jobText = ''hello''\<rparr>)))
        5000 ''wamid.1'' SENT 2000 None None) = Inr None"
  by (simp add: processTextMessage_def sendTextMessage_def sendMessage_def Let_def
      acceptingProvider_def quietAddPayload_def emptyWorld_def updateStatus_def findOne_def)

section \<open>The rates of \<open>getStatistics\<close>\<close>

text \<open>
  Claim C5. \<open>getStatistics\<close> returns \<open>deliveryRate\<close> as
  (delivered + read) / total * 100 and \<open>readRate\<close> as read / (delivered + read) * 100,
  each rounded to two decimal places, and each rate is exactly 0 when its denominator
  is 0; for total 100, delivered 40 and read 10 the rates are 50 and 20.

  The counts are those of the collection: \<open>total\<close> is the number of records in the
  window (all records when no window date is given), and each status count is the
  number of those records whose current status is that status. In binary64 arithmetic
  "rounded to two decimal places" reads: the rate is the number nearest to \<open>k / 100\<close>
  for an integer \<open>k\<close> that differs from 10000 times the exact ratio by at most one half
  (and a rounding error below \<open>1 / 10 ^ 9\<close>), so the rate is within 0.005 of the exact
  percentage, up to that error; and \<open>k\<close> is 10000 times the exact ratio rounded half
  up whenever that product is not within \<open>1 / 10 ^ 9\<close> of a tie. This holds for every
  collection of fewer than \<open>2 ^ 53\<close> documents and every window of valid dates. At
  an exact tie the binary arithmetic decides: for 23 delivered of 160 (14.375 per cent)
  the rate is the binary64 number nearest to 14.37.
\<close>

theorem getStatistics_rates:
  "windowDateOk startDate \<and> windowDateOk endDate \<longrightarrow>
   (\<exists>st. getStatistics docs startDate endDate = Inr st \<and>
     (let inWindow = (\<lambda>d. (startDate = None \<and> endDate = None)
                        \<or> (\<exists>c. createdAt d = Some c \<and> (\<forall>t. startDate = Some t \<longrightarrow> t \<le> c)
                               \<and> (\<forall>t. endDate = Some t \<longrightarrow> c \<le> t)));
          succ = stDelivered st + stRead st;
          dX = 10000 * (of_nat succ / of_nat (stTotal st) :: rat);
          rX = 10000 * (of_nat (stRead st) / of_nat succ :: rat)
      in stTotal st = length (filter inWindow docs)
       \<and> stPending st = length (filter (\<lambda>d. inWindow d \<and> currentStatus d = PENDING) docs)
       \<and> stSent st = length (filter (\<lambda>d. inWindow d \<and> currentStatus d = SENT) docs)
       \<and> stDelivered st = length (filter (\<lambda>d. inWindow d \<and> currentStatus d = DELIVERED) docs)
       \<and> stRead st = length (filter (\<lambda>d. inWindow d \<and> currentStatus d = READ) docs)
       \<and> stFailed st = length (filter (\<lambda>d. inWindow d \<and> currentStatus d = FAILED) docs)
       \<and> (stTotal st = 0 \<longrightarrow> deliveryRate st = 0)
       \<and> (succ = 0 \<longrightarrow> readRate st = 0)
       \<and> (length docs < 2 ^ 53 \<and> 0 < stTotal st \<longrightarrow>
            (\<exists>k::int. deliveryRate st = fl (of_int k / 100)
               \<and> \<bar>of_int k - dX\<bar> \<le> 1 / 2 + 1 / 10 ^ 9)
            \<and> \<bar>deliveryRate st - dX / 100\<bar> \<le> 1 / 200 + 1 / 10 ^ 9
            \<and> (1 / 10 ^ 9 < dX + 1 / 2 - of_int \<lfloor>dX + 1 / 2\<rfloor>
                 \<and> dX + 1 / 2 - of_int \<lfloor>dX + 1 / 2\<rfloor> < 1 - 1 / 10 ^ 9 \<longrightarrow>
               deliveryRate st = fl (of_int \<lfloor>dX + 1 / 2\<rfloor> / 100)))
       \<and> (length docs < 2 ^ 53 \<and> 0 < succ \<longrightarrow>
            (\<exists>k::int. readRate st = fl (of_int k / 100)
               \<and> \<bar>of_int k - rX\<bar> \<le> 1 / 2 + 1 / 10 ^ 9)
            \<and> \<bar>readRate st - rX / 100\<bar> \<le> 1 / 200 + 1 / 10 ^ 9
            \<and> (1 / 10 ^ 9 < rX + 1 / 2 - of_int \<lfloor>rX + 1 / 2\<rfloor>
                 \<and> rX + 1 / 2 - of_int \<lfloor>rX + 1 / 2\<rfloor> < 1 - 1 / 10 ^ 9 \<longrightarrow>
               readRate st = fl (of_int \<lfloor>rX + 1 / 2\<rfloor> / 100)))
       \<and> (stTotal st = 100 \<and> stDelivered st = 40 \<and> stRead st = 10 \<longrightarrow>
            deliveryRate st = 50 \<and> readRate st = 20)
       \<and> (stTotal st = 160 \<and> stDelivered st = 23 \<and> stRead st = 0 \<longrightarrow>
            deliveryRate st = 8089590830664253 / 562949953421312)))"
proof
  assume wd: "windowDateOk startDate \<and> windowDateOk endDate"
  define inW where "inW = (\<lambda>d::MessageStatus. (startDate = None \<and> endDate = None)
                        \<or> (\<exists>c. createdAt d = Some c \<and> (\<forall>t. startDate = Some t \<longrightarrow> t \<le> c)
                               \<and> (\<forall>t. endDate = Some t \<longrightarrow> c \<le> t)))"
  define t where "t = countDocuments startDate endDate None docs"
  define p where "p = countDocuments startDate endDate (Some PENDING) docs"
  define s where "s = countDocuments startDate endDate (Some SENT) docs"
  define d where "d = countDocuments startDate endDate (Some DELIVERED) docs"
  define r where "r = countDocuments startDate endDate (Some READ) docs"
  define f where "f = countDocuments startDate endDate (Some FAILED) docs"
  define st where "st = rateStatistics t p s d r f"
  have g: "getStatistics docs startDate endDate = Inr st"
    using wd by (simp add: getStatistics_window st_def t_def p_def s_def d_def r_def f_def)
  have fields: "stTotal st = t" "stPending st = p" "stSent st = s" "stDelivered st = d"
    "stRead st = r" "stFailed st = f"
    by (simp_all add: st_def rateStatistics_fields)
  have m: "matchesDate startDate endDate = inW"
    by (rule ext) (simp add: matchesDate_iff inW_def)
  have counts: "t = length (filter inW docs)"
    "p = length (filter (\<lambda>d. inW d \<and> currentStatus d = PENDING) docs)"
    "s = length (filter (\<lambda>d. inW d \<and> currentStatus d = SENT) docs)"
    "d = length (filter (\<lambda>d. inW d \<and> currentStatus d = DELIVERED) docs)"
    "r = length (filter (\<lambda>d. inW d \<and> currentStatus d = READ) docs)"
    "f = length (filter (\<lambda>d. inW d \<and> currentStatus d = FAILED) docs)"
    by (simp_all add: t_def p_def s_def d_def r_def f_def countDocuments_def m)
  have le: "d + r \<le> t" unfolding d_def r_def t_def by (rule countDocuments_delivered_read)
  have tl: "t \<le> length docs" unfolding t_def by (rule countDocuments_le_length)
  have z1: "deliveryRate st = 0" if "t = 0"
    using that by (simp add: st_def rateStatistics_zero)
  have z2: "readRate st = 0" if "d + r = 0"
    using that unfolding st_def by (rule rateStatistics_zero(2))
  have tenk: "10000 * x / 100 = 100 * x" for x :: rat by simp
  define dX where "dX = 10000 * (of_nat (d + r) / of_nat t :: rat)"
  define rX where "rX = 10000 * (of_nat r / of_nat (d + r) :: rat)"
  have b1: "(\<exists>k::int. deliveryRate st = fl (of_int k / 100)
               \<and> \<bar>of_int k - dX\<bar> \<le> 1 / 2 + 1 / 10 ^ 9)
            \<and> \<bar>deliveryRate st - dX / 100\<bar> \<le> 1 / 200 + 1 / 10 ^ 9
            \<and> (1 / 10 ^ 9 < dX + 1 / 2 - of_int \<lfloor>dX + 1 / 2\<rfloor>
                 \<and> dX + 1 / 2 - of_int \<lfloor>dX + 1 / 2\<rfloor> < 1 - 1 / 10 ^ 9 \<longrightarrow>
               deliveryRate st = fl (of_int \<lfloor>dX + 1 / 2\<rfloor> / 100))"
    if h: "length docs < 2 ^ 53" "0 < t"
  proof -
    from h le tl have small: "d + r < 2 ^ 53" by linarith
    have S: "(0::rat) \<le> of_nat (d + r)" by simp
    have ST: "(of_nat (d + r) :: rat) \<le> of_nat t" using le by (simp only: of_nat_le_iff)
    have T: "(0::rat) < of_nat t" using h(2) by simp
    note rc = rate_chain [OF S ST T]
    have e: "dX / 100 = 100 * (of_nat (d + r) / of_nat t)" unfolding dX_def by (rule tenk)
    have q: "deliveryRate st =
               fl (mathRound (fl (fl (fl (of_nat (d + r) / of_nat t) * 100) * 100)) / 100)"
      unfolding st_def by (rule rateStatistics_deliveryRate [OF small h(2)])
    have c1: "\<exists>k::int. deliveryRate st = fl (of_int k / 100)
               \<and> \<bar>of_int k - dX\<bar> \<le> 1 / 2 + 1 / 10 ^ 9"
      unfolding q dX_def by (rule rc(1))
    have c2: "\<bar>deliveryRate st - dX / 100\<bar> \<le> 1 / 200 + 1 / 10 ^ 9"
      unfolding q e by (rule rc(2))
    have c3: "deliveryRate st = fl (of_int \<lfloor>dX + 1 / 2\<rfloor> / 100)"
      if "1 / 10 ^ 9 < dX + 1 / 2 - of_int \<lfloor>dX + 1 / 2\<rfloor>"
        "dX + 1 / 2 - of_int \<lfloor>dX + 1 / 2\<rfloor> < 1 - 1 / 10 ^ 9"
      using that unfolding q dX_def by (rule rc(3))
    from c1 c2 c3 show ?thesis by blast
  qed
  have b2: "(\<exists>k::int. readRate st = fl (of_int k / 100)
               \<and> \<bar>of_int k - rX\<bar> \<le> 1 / 2 + 1 / 10 ^ 9)
            \<and> \<bar>readRate st - rX / 100\<bar> \<le> 1 / 200 + 1 / 10 ^ 9
            \<and> (1 / 10 ^ 9 < rX + 1 / 2 - of_int \<lfloor>rX + 1 / 2\<rfloor>
                 \<and> rX + 1 / 2 - of_int \<lfloor>rX + 1 / 2\<rfloor> < 1 - 1 / 10 ^ 9 \<longrightarrow>
               readRate st = fl (of_int \<lfloor>rX + 1 / 2\<rfloor> / 100))"
    if h: "length docs < 2 ^ 53" "0 < d + r"
  proof -
    from h le tl have small: "d + r < 2 ^ 53" by linarith
    have S: "(0::rat) \<le> of_nat r" by simp
    have ST: "(of_nat r :: rat) \<le> of_nat (d + r)" by simp
    have T: "(0::rat) < of_nat (d + r)" using h(2) by (simp only: of_nat_0_less_iff)
    note rc = rate_chain [OF S ST T]
    have e: "rX / 100 = 100 * (of_nat r / of_nat (d + r))" unfolding rX_def by (rule tenk)
    have q: "readRate st =
               fl (mathRound (fl (fl (fl (of_nat r / of_nat (d + r)) * 100) * 100)) / 100)"
      unfolding st_def by (rule rateStatistics_readRate [OF small h(2)])
    have c1: "\<exists>k::int. readRate st = fl (of_int k / 100)
               \<and> \<bar>of_int k - rX\<bar> \<le> 1 / 2 + 1 / 10 ^ 9"
      unfolding q rX_def by (rule rc(1))
    have c2: "\<bar>readRate st - rX / 100\<bar> \<le> 1 / 200 + 1 / 10 ^ 9"
      unfolding q e by (rule rc(2))
    have c3: "readRate st = fl (of_int \<lfloor>rX + 1 / 2\<rfloor> / 100)"
      if "1 / 10 ^ 9 < rX + 1 / 2 - of_int \<lfloor>rX + 1 / 2\<rfloor>"
        "rX + 1 / 2 - of_int \<lfloor>rX + 1 / 2\<rfloor> < 1 - 1 / 10 ^ 9"
      using that unfolding q rX_def by (rule rc(3))
    from c1 c2 c3 show ?thesis by blast
  qed
  have ex: "deliveryRate st = 50 \<and> readRate st = 20" if "t = 100" "d = 40" "r = 10"
    using rateStatistics_rates_only [of 100 p s 40 10 f] rateStatistics_example
    by (simp only: st_def that)
  have tie: "deliveryRate st = 8089590830664253 / 562949953421312"
    if "t = 160" "d = 23" "r = 0"
    using rateStatistics_rates_only(1) [of 160 p s 23 0 f] rateStatistics_tie_value
    by (simp only: st_def that)
  have "let inWindow = inW;
          succ = stDelivered st + stRead st;
          dX = 10000 * (of_nat succ / of_nat (stTotal st) :: rat);
          rX = 10000 * (of_nat (stRead st) / of_nat succ :: rat)
      in stTotal st = length (filter inWindow docs)
       \<and> stPending st = length (filter (\<lambda>d. inWindow d \<and> currentStatus d = PENDING) docs)
       \<and> stSent st = length (filter (\<lambda>d. inWindow d \<and> currentStatus d = SENT) docs)
       \<and> stDelivered st = length (filter (\<lambda>d. inWindow d \<and> currentStatus d = DELIVERED) docs)
       \<and> stRead st = length (filter (\<lambda>d. inWindow d \<and> currentStatus d = READ) docs)
       \<and> stFailed st = length (filter (\<lambda>d. inWindow d \<and> currentStatus d = FAILED) docs)
       \<and> (stTotal st = 0 \<longrightarrow> deliveryRate st = 0)
       \<and> (succ = 0 \<longrightarrow> readRate st = 0)
       \<and> (length docs < 2 ^ 53 \<and> 0 < stTotal st \<longrightarrow>
            (\<exists>k::int. deliveryRate st = fl (of_int k / 100)
               \<and> \<bar>of_int k - dX\<bar> \<le> 1 / 2 + 1 / 10 ^ 9)
            \<and> \<bar>deliveryRate st - dX / 100\<bar> \<le> 1 / 200 + 1 / 10 ^ 9
            \<and> (1 / 10 ^ 9 < dX + 1 / 2 - of_int \<lfloor>dX + 1 / 2\<rfloor>
                 \<and> dX + 1 / 2 - of_int \<lfloor>dX + 1 / 2\<rfloor> < 1 - 1 / 10 ^ 9 \<longrightarrow>
               deliveryRate st = fl (of_int \<lfloor>dX + 1 / 2\<rfloor> / 100)))
       \<and> (length docs < 2 ^ 53 \<and> 0 < succ \<longrightarrow>
            (\<exists>k::int. readRate st = fl (of_int k / 100)
               \<and> \<bar>of_int k - rX\<bar> \<le> 1 / 2 + 1 / 10 ^ 9)
            \<and> \<bar>readRate st - rX / 100\<bar> \<le> 1 / 200 + 1 / 10 ^ 9
            \<and> (1 / 10 ^ 9 < rX + 1 / 2 - of_int \<lfloor>rX + 1 / 2\<rfloor>
                 \<and> rX + 1 / 2 - of_int \<lfloor>rX + 1 / 2\<rfloor> < 1 - 1 / 10 ^ 9 \<longrightarrow>
               readRate st = fl (of_int \<lfloor>rX + 1 / 2\<rfloor> / 100)))
       \<and> (stTotal st = 100 \<and> stDelivered st = 40 \<and> stRead st = 10 \<longrightarrow>
            deliveryRate st = 50 \<and> readRate st = 20)
       \<and> (stTotal st = 160 \<and> stDelivered st = 23 \<and> stRead st = 0 \<longrightarrow>
            deliveryRate st = 8089590830664253 / 562949953421312)"
    unfolding Let_def fields dX_def [symmetric] rX_def [symmetric]
  proof (intro conjI)
    show "t = length (filter inW docs)" by (rule counts)
    show "p = length (filter (\<lambda>d. inW d \<and> currentStatus d = PENDING) docs)" by (rule counts)
    show "s = length (filter (\<lambda>d. inW d \<and> currentStatus d = SENT) docs)" by (rule counts)
    show "d = length (filter (\<lambda>d. inW d \<and> currentStatus d = DELIVERED) docs)" by (rule counts)
    show "r = length (filter (\<lambda>d. inW d \<and> currentStatus d = READ) docs)" by (rule counts)
    show "f = length (filter (\<lambda>d. inW d \<and> currentStatus d = FAILED) docs)" by (rule counts)
    show "t = 0 \<longrightarrow> deliveryRate st = 0" using z1 by blast
    show "d + r = 0 \<longrightarrow> readRate st = 0" using z2 by blast
    show "length docs < 2 ^ 53 \<and> 0 < t \<longrightarrow>
            (\<exists>k::int. deliveryRate st = fl (of_int k / 100)
               \<and> \<bar>of_int k - dX\<bar> \<le> 1 / 2 + 1 / 10 ^ 9)
            \<and> \<bar>deliveryRate st - dX / 100\<bar> \<le> 1 / 200 + 1 / 10 ^ 9
            \<and> (1 / 10 ^ 9 < dX + 1 / 2 - of_int \<lfloor>dX + 1 / 2\<rfloor>
                 \<and> dX + 1 / 2 - of_int \<lfloor>dX + 1 / 2\<rfloor> < 1 - 1 / 10 ^ 9 \<longrightarrow>
               deliveryRate st = fl (of_int \<lfloor>dX + 1 / 2\<rfloor> / 100))"
      using b1 by blast
    show "length docs < 2 ^ 53 \<and> 0 < d + r \<longrightarrow>
            (\<exists>k::int. readRate st = fl (of_int k / 100)
               \<and> \<bar>of_int k - rX\<bar> \<le> 1 / 2 + 1 / 10 ^ 9)
            \<and> \<bar>readRate st - rX / 100\<bar> \<le> 1 / 200 + 1 / 10 ^ 9
            \<and> (1 / 10 ^ 9 < rX + 1 / 2 - of_int \<lfloor>rX + 1 / 2\<rfloor>
                 \<and> rX + 1 / 2 - of_int \<lfloor>rX + 1 / 2\<rfloor> < 1 - 1 / 10 ^ 9 \<longrightarrow>
               readRate st = fl (of_int \<lfloor>rX + 1 / 2\<rfloor> / 100))"
      using b2 by blast
    show "t = 100 \<and> d = 40 \<and> r = 10 \<longrightarrow> deliveryRate st = 50 \<and> readRate st = 20"
      using ex by blast
    show "t = 160 \<and> d = 23 \<and> r = 0 \<longrightarrow>
            deliveryRate st = 8089590830664253 / 562949953421312"
      using tie by blast
  qed
  with g show "\<exists>st. getStatistics docs startDate endDate = Inr st \<and>
     (let inWindow = (\<lambda>d. (startDate = None \<and> endDate = None)
                        \<or> (\<exists>c. createdAt d = Some c \<and> (\<forall>t. startDate = Some t \<longrightarrow> t \<le> c)
                               \<and> (\<forall>t. endDate = Some t \<longrightarrow> c \<le> t)));
          succ = stDelivered st + stRead st;
          dX = 10000 * (of_nat succ / of_nat (stTotal st) :: rat);
          rX = 10000 * (of_nat (stRead st) / of_nat succ :: rat)
      in stTotal st = length (filter inWindow docs)
       \<and> stPending st = length (filter (\<lambda>d. inWindow d \<and> currentStatus d = PENDING) docs)
       \<and> stSent st = length (filter (\<lambda>d. inWindow d \<and> currentStatus d = SENT) docs)
       \<and> stDelivered st = length (filter (\<lambda>d. inWindow d \<and> currentStatus d = DELIVERED) docs)
       \<and> stRead st = length (filter (\<lambda>d. inWindow d \<and> currentStatus d = READ) docs)
       \<and> stFailed st = length (filter (\<lambda>d. inWindow d \<and> currentStatus d = FAILED) docs)
       \<and> (stTotal st = 0 \<longrightarrow> deliveryRate st = 0)
       \<and> (succ = 0 \<longrightarrow> readRate st = 0)
       \<and> (length docs < 2 ^ 53 \<and> 0 < stTotal st \<longrightarrow>
            (\<exists>k::int. deliveryRate st = fl (of_int k / 100)
               \<and> \<bar>of_int k - dX\<bar> \<le> 1 / 2 + 1 / 10 ^ 9)
            \<and> \<bar>deliveryRate st - dX / 100\<bar> \<le> 1 / 200 + 1 / 10 ^ 9
            \<and> (1 / 10 ^ 9 < dX + 1 / 2 - of_int \<lfloor>dX + 1 / 2\<rfloor>
                 \<and> dX + 1 / 2 - of_int \<lfloor>dX + 1 / 2\<rfloor> < 1 - 1 / 10 ^ 9 \<longrightarrow>
               deliveryRate st = fl (of_int \<lfloor>dX + 1 / 2\<rfloor> / 100)))
       \<and> (length docs < 2 ^ 53 \<and> 0 < succ \<longrightarrow>
            (\<exists>k::int. readRate st = fl (of_int k / 100)
               \<and> \<bar>of_int k - rX\<bar> \<le> 1 / 2 + 1 / 10 ^ 9)
            \<and> \<bar>readRate st - rX / 100\<bar> \<le> 1 / 200 + 1 / 10 ^ 9
            \<and> (1 / 10 ^ 9 < rX + 1 / 2 - of_int \<lfloor>rX + 1 / 2\<rfloor>
                 \<and> rX + 1 / 2 - of_int \<lfloor>rX + 1 / 2\<rfloor> < 1 - 1 / 10 ^ 9 \<longrightarrow>
               readRate st = fl (of_int \<lfloor>rX + 1 / 2\<rfloor> / 100)))
       \<and> (stTotal st = 100 \<and> stDelivered st = 40 \<and> stRead st = 10 \<longrightarrow>
            deliveryRate st = 50 \<and> readRate st = 20)
       \<and> (stTotal st = 160 \<and> stDelivered st = 23 \<and> stRead st = 0 \<longrightarrow>
            deliveryRate st = 8089590830664253 / 562949953421312))"
    unfolding inW_def by blast
qed

theorem getStatistics_rates_witness:
  "(\<exists>st. getStatistics hundredDocs None None = Inr st
      \<and> stTotal st = 100 \<and> stDelivered st = 40 \<and> stRead st = 10 \<and> stSent st = 50
      \<and> deliveryRate st = 50 \<and> readRate st = 20)
   \<and> (\<exists>st. getStatistics [] None None = Inr st
      \<and> stTotal st = 0 \<and> deliveryRate st = 0 \<and> readRate st = 0)"
proof -
  let ?W = "\<lambda>d::MessageStatus. ((None::date option) = None \<and> (None::date option) = None)
              \<or> (\<exists>c. createdAt d = Some c \<and> (\<forall>t. (None::date option) = Some t \<longrightarrow> t \<le> c)
                     \<and> (\<forall>t. (None::date option) = Some t \<longrightarrow> c \<le> t))"
  have w: "windowDateOk None \<and> windowDateOk None" by simp
  have c: "length hundredDocs = 100"
    "length (filter (\<lambda>d. currentStatus d = DELIVERED) hundredDocs) = 40"
    "length (filter (\<lambda>d. currentStatus d = READ) hundredDocs) = 10"
    "length (filter (\<lambda>d. currentStatus d = SENT) hundredDocs) = 50"
    by (simp_all add: hundredDocs_def docWithStatus_def)
  note T = getStatistics_rates [of None None hundredDocs, unfolded Let_def, THEN mp, OF w]
  note T0 = getStatistics_rates [of None None "[]", unfolded Let_def, THEN mp, OF w]
  have a: "\<exists>st. getStatistics hundredDocs None None = Inr st
      \<and> stTotal st = 100 \<and> stDelivered st = 40 \<and> stRead st = 10 \<and> stSent st = 50
      \<and> deliveryRate st = 50 \<and> readRate st = 20"
    using T
  proof (elim exE conjE)
    fix st
    assume g: "getStatistics hundredDocs None None = Inr st"
      and n: "stTotal st = length (filter ?W hundredDocs)"
        "stSent st = length (filter (\<lambda>d. ?W d \<and> currentStatus d = SENT) hundredDocs)"
        "stDelivered st = length (filter (\<lambda>d. ?W d \<and> currentStatus d = DELIVERED) hundredDocs)"
        "stRead st = length (filter (\<lambda>d. ?W d \<and> currentStatus d = READ) hundredDocs)"
      and e: "stTotal st = 100 \<and> stDelivered st = 40 \<and> stRead st = 10 \<longrightarrow>
              deliveryRate st = 50 \<and> readRate st = 20"
    from n have m: "stTotal st = 100" "stSent st = 50" "stDelivered st = 40" "stRead st = 10"
      by (simp_all add: c)
    with e have r: "deliveryRate st = 50" "readRate st = 20" by simp_all
    from g m r show ?thesis by blast
  qed
  have b: "\<exists>st. getStatistics [] None None = Inr st
      \<and> stTotal st = 0 \<and> deliveryRate st = 0 \<and> readRate st = 0"
    using T0
  proof (elim exE conjE)
    fix st0
    assume g0: "getStatistics [] None None = Inr st0"
      and n0: "stTotal st0 = length (filter ?W [])"
        "stDelivered st0 = length (filter (\<lambda>d. ?W d \<and> currentStatus d = DELIVERED) [])"
        "stRead st0 = length (filter (\<lambda>d. ?W d \<and> currentStatus d = READ) [])"
      and z: "stTotal st0 = 0 \<longrightarrow> deliveryRate st0 = 0"
        "stDelivered st0 + stRead st0 = 0 \<longrightarrow> readRate st0 = 0"
    from n0 z have r0: "stTotal st0 = 0" "deliveryRate st0 = 0" "readRate st0 = 0" by simp_all
    from g0 r0 show ?thesis by blast
  qed
  from a b show ?thesis by blast
qed

end
